theory Spec2Isabelle
  imports Main
begin

section \<open>The Enaml parser's semantic actions (enaml/core/parser.py)\<close>

text \<open>
  The parser is a table of PLY grammar actions: each function \<open>p_...\<close> receives the values
  of the symbols of one production and builds a tree fragment. The embedding below follows
  the actions one by one. Exceptions are values of the type \<open>error\<close>; a function that can
  raise returns \<open>error + 'a\<close>, with \<open>Inl\<close> for the exception.
\<close>

subsection \<open>Embedded expression nodes (the nodes of Python's \<open>ast\<close> the actions build)\<close>

datatype expr_context = Load | Store | Param

datatype boolop = And | Or

datatype operator =
  Add | Sub | Mult | Div | Mod | Pow_op | LShift | RShift | BitOr | BitXor | BitAnd | FloorDiv

datatype unaryop = Invert | Not_op | UAdd | USub

datatype cmpop = Eq | NotEq | Lt | LtE | Gt | GtE | Is | IsNot | In | NotIn

text \<open>
  A slice node. \<open>ast.Slice(lower=..., upper=..., step=...)\<close> stores each keyword argument
  under the keyword's name, whatever the name is, so a \<open>Slice\<close> is the list of its
  keyword arguments in the order the action writes them; a field value is \<open>None\<close> for
  Python's \<open>None\<close> and \<open>Some e\<close> for a node.
\<close>

datatype 'e slice_node =
    Ellipsis
  | Index 'e
  | Slice "(string \<times> 'e option) list"
  | ExtSlice "'e slice_node list"

text \<open>
  Expression nodes, with their fields in the order of Python's \<open>ast\<close> declarations.
  \<open>Lambda\<close> carries its \<open>arguments\<close> (args, defaults, vararg, kwarg); a comprehension is
  (target, iter, ifs); a keyword is (arg, value). \<open>Num\<close> keeps the text of the number
  token. Python's fields are untyped: \<open>TokenText s\<close> is a plain \<open>str\<close> (the text of a
  token) sitting where a node is expected.
\<close>

datatype expr =
    Name string expr_context
  | Num string
  | Str string
  | Tuple "expr list" expr_context
  | List "expr list" expr_context
  | Dict "expr list" "expr list"
  | Set "expr list"
  | BoolOp boolop "expr list"
  | BinOp expr operator expr
  | UnaryOp unaryop expr
  | Compare expr "cmpop list" "expr list"
  | IfExp expr expr expr
  | Lambda "expr list \<times> expr list \<times> string option \<times> string option" expr
  | Call expr "expr list" "(string \<times> expr) list" "expr option" "expr option"
  | Attribute expr string expr_context
  | Subscript expr "expr slice_node" expr_context
  | GeneratorExp expr "(expr \<times> expr \<times> expr list) list"
  | ListComp expr "(expr \<times> expr \<times> expr list) list"
  | SetComp expr "(expr \<times> expr \<times> expr list) list"
  | DictComp expr expr "(expr \<times> expr \<times> expr list) list"
  | TokenText string

text \<open>
  Statement nodes of the imports and of the \<open>::\<close> bindings. The last field is the
  \<open>lineno\<close> attribute, \<open>None\<close> while no action has assigned it. An alias is
  (name, asname). \<open>ImportFrom\<close> has the fields module, names and level; its \<open>names\<close> is the
  list of aliases, or the one alias itself where an action stores an alias that is not in
  a list.
\<close>

datatype import_names =
    Aliases "(string \<times> string option) list"
  | Lone_alias "string \<times> string option"

datatype stmt =
    Expr expr "int option"
  | Assign "expr list" expr "int option"
  | Print "expr list" "int option"
  | Import "(string \<times> string option) list" "int option"
  | ImportFrom "string option" import_names nat "int option"

subsection \<open>Errors\<close>

text \<open>
  \<open>SyntaxError filename lineno msg\<close> is what \<open>raise_syntax_error(msg, filename, lineno)\<close>
  raises; \<open>EnamlSyntaxError msg\<close> is the parser's own exception, built from a message
  alone; \<open>UnexpectedExpression\<close> is the failure of the last branch of \<open>set_store_ctxt\<close>;
  \<open>PySyntaxError msg\<close> is Python's own \<open>SyntaxError\<close> built from a message alone, as
  \<open>raise SyntaxError(msg)\<close> does, whose file name and line number are not set. The others
  are Python's built-in exceptions.
\<close>

datatype error =
    SyntaxError string int string
  | EnamlSyntaxError string
  | UnexpectedExpression
  | PySyntaxError string
  | AssertionError string
  | AttributeError string
  | IndexError
  | KeyError char
  | TypeError string

fun err_filename :: "error \<Rightarrow> string option" where
  "err_filename (SyntaxError filename lineno msg) = Some filename"
| "err_filename _ = None"

fun err_lineno :: "error \<Rightarrow> int option" where
  "err_lineno (SyntaxError filename lineno msg) = Some lineno"
| "err_lineno _ = None"

fun err_message :: "error \<Rightarrow> string option" where
  "err_message (SyntaxError filename lineno msg) = Some msg"
| "err_message (EnamlSyntaxError msg) = Some msg"
| "err_message (PySyntaxError msg) = Some msg"
| "err_message (AssertionError msg) = Some msg"
| "err_message (AttributeError msg) = Some msg"
| "err_message (TypeError msg) = Some msg"
| "err_message _ = None"

text \<open>
  Modelled from the spec: \<open>raise_syntax_error\<close> of enaml/core/lexer.py, which is not among
  the source files. The spec's diagnostics are "a single structured failure value carrying:
  filename, line, human-readable message"; the call sites pass (msg, filename, lineno).
\<close>

definition raise_syntax_error :: "string \<Rightarrow> string \<Rightarrow> int \<Rightarrow> error + 'a" where
  "raise_syntax_error msg filename lineno = Inl (SyntaxError filename lineno msg)"

text \<open>Python's \<open>'%s' % n\<close> for an integer: its decimal digits.\<close>

definition digit_char :: "nat \<Rightarrow> char" where
  "digit_char n = ''0123456789'' ! (n mod 10)"

fun str_nat :: "nat \<Rightarrow> string" where
  "str_nat n = (if n < 10 then [digit_char n] else str_nat (n div 10) @ [digit_char n])"

declare str_nat.simps [simp del]

definition str_int :: "int \<Rightarrow> string" where
  "str_int i = (if i < 0 then CHR ''-'' # str_nat (nat (- i)) else str_nat (nat i))"

definition raise_enaml_syntax_error :: "string \<Rightarrow> int \<Rightarrow> error + 'a" where
  "raise_enaml_syntax_error msg lineno =
     Inl (EnamlSyntaxError (msg @ '' - lineno ('' @ str_int lineno @ '')''))"

subsection \<open>Declarative nodes\<close>

text \<open>
  Modelled from the spec: the node classes of enaml/core/enaml_ast.py, which is not among
  the source files. Each constructor takes its fields in the order the actions pass them,
  which is the order of the spec's data model: \<open>Module\<close> (docstring, items, line number),
  \<open>Declaration\<close> (name, base, identifier, docstring, body items, line number),
  \<open>Instantiation\<close> (name, identifier, body items, line number), \<open>AttributeDeclaration\<close>
  (name, type, default binding, event flag, line number), \<open>AttributeBinding\<close> (name, bound
  expression, line number), \<open>BoundExpression\<close> (binding kind, embedded tree, line number)
  and \<open>Python\<close> (embedded tree, line number).

  The tree inside a \<open>Python\<close> wrapper is an \<open>ast.Expression\<close> with the \<open>lineno\<close> the
  action gives it, an \<open>ast.Module\<close> built from statements, or the tree that Python's own
  \<open>ast.parse\<close> returns for a raw block; that parser is outside the repository, so its
  tree is represented by the text it was given.
\<close>

datatype py_tree =
    Expression expr int
  | Module_body "stmt list"
  | Parsed string

datatype Python = Python py_tree int

datatype BoundExpression = BoundExpression string Python int

datatype AttributeBinding = AttributeBinding string BoundExpression int

datatype AttributeDeclaration =
  AttributeDeclaration string "Python option" "AttributeBinding option" bool int

datatype Instantiation =
  Instantiation string "string option" "instantiation_item list" int
and instantiation_item =
    Item_Instantiation Instantiation
  | Item_AttributeBinding AttributeBinding

datatype declaration_item =
    Decl_AttributeDeclaration AttributeDeclaration
  | Decl_AttributeBinding AttributeBinding
  | Decl_Instantiation Instantiation

datatype Declaration =
  Declaration string Python "string option" string "declaration_item list" int

datatype module_item =
    Item_Python Python
  | Item_Declaration Declaration

datatype Module = Module string "module_item list" int

subsection \<open>Attribute declarations\<close>

text \<open>
  \<open>build_attr_declaration(kw, name, type_node, default, lineno, p)\<close>; of \<open>p\<close> only
  \<open>p.lexer.filename\<close> is read, so the file name stands for it.
\<close>

definition expected_keyword_msg :: "string \<Rightarrow> string" where
  "expected_keyword_msg kw =
     ''Expected keyword 'attr' or 'event', got '' @ [CHR 0x27] @ kw @ [CHR 0x27] @ '' instead.''"

definition build_attr_declaration ::
  "string \<Rightarrow> string \<Rightarrow> Python option \<Rightarrow> AttributeBinding option \<Rightarrow> int \<Rightarrow> string
    \<Rightarrow> error + AttributeDeclaration" where
  "build_attr_declaration kw name type_node dflt lineno filename =
     (if kw \<notin> set [''attr'', ''event'']
      then raise_syntax_error (expected_keyword_msg kw) filename lineno
      else if kw = ''attr''
      then Inr (AttributeDeclaration name type_node dflt False lineno)
      else Inr (AttributeDeclaration name type_node dflt True lineno))"

definition p_attribute_declaration1 ::
  "string \<Rightarrow> string \<Rightarrow> int \<Rightarrow> string \<Rightarrow> error + AttributeDeclaration" where
  "p_attribute_declaration1 p1 p2 lineno1 filename =
     build_attr_declaration p1 p2 None None lineno1 filename"

subsection \<open>Operator translation and bindings\<close>

definition operator_table :: "(char \<times> string) list" where
  "operator_table =
     [(CHR ''='', ''Equal''), (CHR ''<'', ''Less''), (CHR ''>'', ''Greater''),
      (CHR '':'', ''Colon'')]"

text \<open>
  \<open>''.join(op_table[char] for char in op)\<close>: the characters are looked up from left to
  right, and the first one that is not a key of the table raises \<open>KeyError\<close>.
\<close>

fun join_names :: "string \<Rightarrow> error + string" where
  "join_names [] = Inr []"
| "join_names (char # op) =
     (case map_of operator_table char of
        None \<Rightarrow> Inl (KeyError char)
      | Some name \<Rightarrow>
          (case join_names op of Inl e \<Rightarrow> Inl e | Inr names \<Rightarrow> Inr (name @ names)))"

definition translate_operator :: "string \<Rightarrow> error + string" where
  "translate_operator op =
     (case join_names op of
        Inl e \<Rightarrow> Inl e
      | Inr name \<Rightarrow> Inr (''__operator_'' @ name @ ''__''))"

text \<open>
  The first symbol of every production of \<open>binding\<close> is one of five tokens (the docstrings
  of \<open>p_binding1\<close>, \<open>p_binding2\<close> and \<open>p_binding3\<close>).
\<close>

datatype binding_token = EQUAL | COLONEQUAL | LEFTSHIFT | RIGHTSHIFT | DOUBLECOLON

text \<open>
  Modelled from the spec: the texts of the binding tokens, which the lexer
  (enaml/core/lexer.py, not among the source files) produces. The spec names the tokens as
  "plain assignment, delegate-style colon-equal, left-shift, right-shift, and a
  double-colon operator" and their texts as \<open>=\<close>, \<open>:=\<close>, \<open><<\<close>, \<open>>>\<close>, \<open>::\<close>.
\<close>

fun token_text :: "binding_token \<Rightarrow> string" where
  "token_text EQUAL = ''=''"
| "token_text COLONEQUAL = '':=''"
| "token_text LEFTSHIFT = ''<<''"
| "token_text RIGHTSHIFT = ''>>''"
| "token_text DOUBLECOLON = ''::''"

text \<open>
  The three binding actions. \<open>p1\<close> is the text of the operator token, \<open>lineno1\<close> is
  \<open>p.lineno(1)\<close>, the line of that token.
\<close>

definition p_binding1 :: "string \<Rightarrow> expr \<Rightarrow> int \<Rightarrow> error + BoundExpression" where
  "p_binding1 p1 p2 lineno1 =
     (case translate_operator p1 of
        Inl e \<Rightarrow> Inl e
      | Inr operator \<Rightarrow>
          Inr (BoundExpression operator (Python (Expression p2 lineno1) lineno1) lineno1))"

definition p_binding2 :: "string \<Rightarrow> stmt \<Rightarrow> int \<Rightarrow> error + BoundExpression" where
  "p_binding2 p1 p2 lineno1 =
     (case translate_operator p1 of
        Inl e \<Rightarrow> Inl e
      | Inr operator \<Rightarrow>
          Inr (BoundExpression operator (Python (Module_body [p2]) lineno1) lineno1))"

definition p_binding3 :: "string \<Rightarrow> stmt list \<Rightarrow> int \<Rightarrow> error + BoundExpression" where
  "p_binding3 p1 p2 lineno1 =
     (case translate_operator p1 of
        Inl e \<Rightarrow> Inl e
      | Inr operator \<Rightarrow>
          Inr (BoundExpression operator (Python (Module_body p2) lineno1) lineno1))"

text \<open>
  The productions of \<open>binding\<close>, as the docstrings of the three actions list them:
  one of \<open>EQUAL\<close>, \<open>COLONEQUAL\<close>, \<open>LEFTSHIFT\<close>, \<open>RIGHTSHIFT\<close> before \<open>test NEWLINE\<close>,
  or \<open>DOUBLECOLON\<close> before a statement line or a statement suite. \<open>None\<close> means that no
  production has this shape.
\<close>

datatype binding_body =
    Test_line expr
  | Simple_stmt_line stmt
  | Simple_stmt_suite "stmt list"

fun binding :: "binding_token \<Rightarrow> binding_body \<Rightarrow> int \<Rightarrow> (error + BoundExpression) option" where
  "binding DOUBLECOLON (Simple_stmt_line s) lineno1 =
     Some (p_binding2 (token_text DOUBLECOLON) s lineno1)"
| "binding DOUBLECOLON (Simple_stmt_suite ss) lineno1 =
     Some (p_binding3 (token_text DOUBLECOLON) ss lineno1)"
| "binding DOUBLECOLON (Test_line t) lineno1 = None"
| "binding tok (Test_line t) lineno1 = Some (p_binding1 (token_text tok) t lineno1)"
| "binding tok body lineno1 = None"

definition p_attribute_binding :: "string \<Rightarrow> BoundExpression \<Rightarrow> int \<Rightarrow> AttributeBinding" where
  "p_attribute_binding p1 p2 lineno1 = AttributeBinding p1 p2 lineno1"

subsection \<open>The module rules\<close>

definition p_enaml1 :: "Module \<Rightarrow> Module" where
  "p_enaml1 p1 = p1"

definition p_enaml2 :: "Module" where
  "p_enaml2 = Module '''' [] (- 1)"

definition p_enaml3 :: "string \<Rightarrow> Module" where
  "p_enaml3 p1 = Module p1 [] (- 1)"

definition p_enaml_module1 :: "module_item list \<Rightarrow> Module" where
  "p_enaml_module1 p1 = Module '''' p1 (- 1)"

definition p_enaml_module2 :: "string \<Rightarrow> module_item list \<Rightarrow> Module" where
  "p_enaml_module2 p1 p3 = Module p1 p3 (- 1)"

text \<open>
  The start symbol \<open>enaml\<close> over a token stream. The tokens that matter here are
  \<open>NEWLINE\<close>, \<open>ENDMARKER\<close> and \<open>STRING\<close> with its value; every other token is
  \<open>Token kind text\<close>. The productions of \<open>p_enaml2\<close> and \<open>p_enaml3\<close> are the three streams
  \<open>ENDMARKER\<close>, \<open>NEWLINE ENDMARKER\<close> and \<open>STRING NEWLINE ENDMARKER\<close>; the comment above
  them says they are there for "completely empty files" and the variations of newline
  and end marker. No production of \<open>p_enaml1\<close> matches these three streams, since a module
  body holds at least one item and no item starts with one of these tokens. Every other
  stream goes to the productions of \<open>p_enaml1\<close>, whose non-terminal \<open>enaml_module\<close> stands
  for the rest of the grammar and is a parameter.
\<close>

datatype token = NEWLINE | ENDMARKER | STRING string | Token string string

fun enaml :: "(token list \<Rightarrow> error + Module) \<Rightarrow> token list \<Rightarrow> error + Module" where
  "enaml enaml_module [ENDMARKER] = Inr p_enaml2"
| "enaml enaml_module [NEWLINE, ENDMARKER] = Inr p_enaml2"
| "enaml enaml_module [STRING s, NEWLINE, ENDMARKER] = Inr (p_enaml3 s)"
| "enaml enaml_module ts =
     (case enaml_module ts of Inl e \<Rightarrow> Inl e | Inr m \<Rightarrow> Inr (p_enaml1 m))"

fun Module_doc :: "Module \<Rightarrow> string" where
  "Module_doc (Module doc body lineno) = doc"

fun Module_body_items :: "Module \<Rightarrow> module_item list" where
  "Module_body_items (Module doc body lineno) = body"

fun Module_lineno :: "Module \<Rightarrow> int" where
  "Module_lineno (Module doc body lineno) = lineno"

subsection \<open>Raw blocks, imports, declarations and instantiations\<close>

text \<open>
  \<open>p_enaml_raw_python\<close>. Python's \<open>ast.parse\<close> is outside the repository and is a
  parameter: given the text and the file name it returns the tree, or the \<open>filename\<close> and
  \<open>lineno\<close> of the \<open>SyntaxError\<close> it raises. \<open>lineno1\<close> is \<open>p.lineno(1)\<close>, the line of the
  \<open>PY_BLOCK_START\<close> token, and \<open>p3\<close> the text of the block.
\<close>

definition newlines :: "int \<Rightarrow> string" where
  "newlines n = replicate (nat n) (CHR 0x0A)"

definition p_enaml_raw_python ::
  "(string \<Rightarrow> string \<Rightarrow> (string \<times> int) + py_tree) \<Rightarrow> string \<Rightarrow> int \<Rightarrow> string
    \<Rightarrow> error + Python" where
  "p_enaml_raw_python ast_parse filename lineno1 p3 =
     (let py_txt = p3;
          compile_txt = newlines lineno1 @ py_txt
      in case ast_parse compile_txt filename of
           Inl (e_filename, e_lineno) \<Rightarrow> raise_syntax_error ''invalid syntax'' e_filename e_lineno
         | Inr py_ast \<Rightarrow> Inr (Python py_ast lineno1))"

fun stmt_lineno :: "stmt \<Rightarrow> int option" where
  "stmt_lineno (Expr v l) = l"
| "stmt_lineno (Assign ts v l) = l"
| "stmt_lineno (Print vs l) = l"
| "stmt_lineno (Import names l) = l"
| "stmt_lineno (ImportFrom m names level l) = l"

fun set_stmt_lineno :: "stmt \<Rightarrow> int \<Rightarrow> stmt" where
  "set_stmt_lineno (Expr v l) n = Expr v (Some n)"
| "set_stmt_lineno (Assign ts v l) n = Assign ts v (Some n)"
| "set_stmt_lineno (Print vs l) n = Print vs (Some n)"
| "set_stmt_lineno (Import names l) n = Import names (Some n)"
| "set_stmt_lineno (ImportFrom m names level l) n = ImportFrom m names level (Some n)"

definition p_import_name :: "(string \<times> string option) list \<Rightarrow> stmt" where
  "p_import_name p2 = Import p2 None"

text \<open>
  The nine actions of \<open>import_from\<close>. \<open>p_import_as_name1\<close> and \<open>p_import_as_name2\<close> build an
  alias (name, asname); a dotted name is a string; \<open>import_from_dots\<close> is the list of the
  texts of its \<open>DOT\<close> tokens, whose length is the level; \<open>STAR\<close> gives its text. The action
  \<open>p_import_from5\<close> passes the one alias of \<open>import_as_name\<close> as it is, not in a list.
\<close>

definition p_import_as_name1 :: "string \<Rightarrow> string \<times> string option" where
  "p_import_as_name1 p1 = (p1, None)"

definition p_import_as_name2 :: "string \<Rightarrow> string \<Rightarrow> string \<times> string option" where
  "p_import_as_name2 p1 p3 = (p1, Some p3)"

definition p_import_from1 :: "string \<Rightarrow> string \<Rightarrow> stmt" where
  "p_import_from1 p2 p4 =
     (let alias = (p4, None) in ImportFrom (Some p2) (Aliases [alias]) 0 None)"

definition p_import_from2 :: "string \<Rightarrow> (string \<times> string option) list \<Rightarrow> stmt" where
  "p_import_from2 p2 p4 = ImportFrom (Some p2) (Aliases p4) 0 None"

definition p_import_from3 :: "string \<Rightarrow> (string \<times> string option) list \<Rightarrow> stmt" where
  "p_import_from3 p2 p5 = ImportFrom (Some p2) (Aliases p5) 0 None"

definition p_import_from4 :: "string list \<Rightarrow> string \<Rightarrow> string \<Rightarrow> stmt" where
  "p_import_from4 p2 p3 p5 =
     (let alias = (p5, None) in ImportFrom (Some p3) (Aliases [alias]) (length p2) None)"

definition p_import_from5 :: "string list \<Rightarrow> string \<Rightarrow> string \<times> string option \<Rightarrow> stmt" where
  "p_import_from5 p2 p3 p5 = ImportFrom (Some p3) (Lone_alias p5) (length p2) None"

definition p_import_from6 ::
  "string list \<Rightarrow> string \<Rightarrow> (string \<times> string option) list \<Rightarrow> stmt" where
  "p_import_from6 p2 p3 p6 = ImportFrom (Some p3) (Aliases p6) (length p2) None"

definition p_import_from7 :: "string list \<Rightarrow> string \<Rightarrow> stmt" where
  "p_import_from7 p2 p4 =
     (let alias = (p4, None) in ImportFrom None (Aliases [alias]) (length p2) None)"

definition p_import_from8 :: "string list \<Rightarrow> (string \<times> string option) list \<Rightarrow> stmt" where
  "p_import_from8 p2 p4 = ImportFrom None (Aliases p4) (length p2) None"

definition p_import_from9 :: "string list \<Rightarrow> (string \<times> string option) list \<Rightarrow> stmt" where
  "p_import_from9 p2 p5 = ImportFrom None (Aliases p5) (length p2) None"

text \<open>
  \<open>p_import_stmt1\<close> for \<open>import_name NEWLINE\<close> and \<open>p_import_stmt2\<close> for
  \<open>import_from NEWLINE\<close>; \<open>lineno2\<close> is \<open>p.lineno(2)\<close>, the line of the \<open>NEWLINE\<close> token.
\<close>

definition p_import_stmt1 :: "stmt \<Rightarrow> int \<Rightarrow> stmt" where
  "p_import_stmt1 p1 lineno2 = (let imprt = p1 in set_stmt_lineno imprt lineno2)"

definition p_import_stmt2 :: "stmt \<Rightarrow> int \<Rightarrow> stmt" where
  "p_import_stmt2 p1 lineno2 = (let imprt = p1 in set_stmt_lineno imprt lineno2)"

text \<open>
  The productions of \<open>import_stmt\<close> with the statement each one builds: an \<open>import_name\<close>
  or one of the nine forms of \<open>import_from\<close>, then the \<open>NEWLINE\<close> on line \<open>lineno2\<close>.
\<close>

datatype import_form =
    Import_name "(string \<times> string option) list"
  | Import_from1 string string
  | Import_from2 string "(string \<times> string option) list"
  | Import_from3 string "(string \<times> string option) list"
  | Import_from4 "string list" string string
  | Import_from5 "string list" string "string \<times> string option"
  | Import_from6 "string list" string "(string \<times> string option) list"
  | Import_from7 "string list" string
  | Import_from8 "string list" "(string \<times> string option) list"
  | Import_from9 "string list" "(string \<times> string option) list"

fun import_stmt :: "import_form \<Rightarrow> int \<Rightarrow> stmt" where
  "import_stmt (Import_name names) lineno2 = p_import_stmt1 (p_import_name names) lineno2"
| "import_stmt (Import_from1 m star) lineno2 = p_import_stmt2 (p_import_from1 m star) lineno2"
| "import_stmt (Import_from2 m names) lineno2 = p_import_stmt2 (p_import_from2 m names) lineno2"
| "import_stmt (Import_from3 m names) lineno2 = p_import_stmt2 (p_import_from3 m names) lineno2"
| "import_stmt (Import_from4 dots m star) lineno2 =
     p_import_stmt2 (p_import_from4 dots m star) lineno2"
| "import_stmt (Import_from5 dots m alias) lineno2 =
     p_import_stmt2 (p_import_from5 dots m alias) lineno2"
| "import_stmt (Import_from6 dots m names) lineno2 =
     p_import_stmt2 (p_import_from6 dots m names) lineno2"
| "import_stmt (Import_from7 dots star) lineno2 = p_import_stmt2 (p_import_from7 dots star) lineno2"
| "import_stmt (Import_from8 dots names) lineno2 =
     p_import_stmt2 (p_import_from8 dots names) lineno2"
| "import_stmt (Import_from9 dots names) lineno2 =
     p_import_stmt2 (p_import_from9 dots names) lineno2"

text \<open>Reading \<open>imprt.lineno\<close> raises \<open>AttributeError\<close> when the attribute was never set.\<close>

definition p_enaml_import :: "stmt \<Rightarrow> error + Python" where
  "p_enaml_import p1 =
     (case stmt_lineno p1 of
        None \<Rightarrow> Inl (AttributeError ''lineno'')
      | Some lineno \<Rightarrow> Inr (Python (Module_body [p1]) lineno))"

text \<open>\<open>p6\<close> is the value of \<open>declaration_body\<close>: (docstring, identifier, items).\<close>

definition p_declaration ::
  "string \<Rightarrow> string \<Rightarrow> string \<times> string option \<times> declaration_item list \<Rightarrow> int \<Rightarrow> Declaration" where
  "p_declaration p1 p3 p6 lineno1 =
     (case p6 of (doc, idn, items) \<Rightarrow>
        Declaration p1 (Python (Expression (Name p3 Load) lineno1) lineno1) idn doc items lineno1)"

definition p_instantiation ::
  "string \<Rightarrow> string option \<times> instantiation_item list \<Rightarrow> int \<Rightarrow> Instantiation" where
  "p_instantiation p1 p3 lineno1 =
     (case p3 of (identifier, items) \<Rightarrow> Instantiation p1 identifier items lineno1)"

definition p_attribute_declaration2 ::
  "string \<Rightarrow> string \<Rightarrow> string \<Rightarrow> int \<Rightarrow> string \<Rightarrow> error + AttributeDeclaration" where
  "p_attribute_declaration2 p1 p2 p4 lineno1 filename =
     build_attr_declaration p1 p2
       (Some (Python (Expression (Name p4 Load) lineno1) lineno1)) None lineno1 filename"

definition p_attribute_declaration3 ::
  "string \<Rightarrow> string \<Rightarrow> BoundExpression \<Rightarrow> int \<Rightarrow> string \<Rightarrow> error + AttributeDeclaration" where
  "p_attribute_declaration3 p1 p2 p3 lineno1 filename =
     build_attr_declaration p1 p2 None (Some (AttributeBinding p2 p3 lineno1)) lineno1 filename"

definition p_attribute_declaration4 ::
  "string \<Rightarrow> string \<Rightarrow> string \<Rightarrow> BoundExpression \<Rightarrow> int \<Rightarrow> string
    \<Rightarrow> error + AttributeDeclaration" where
  "p_attribute_declaration4 p1 p2 p4 p5 lineno1 filename =
     build_attr_declaration p1 p2
       (Some (Python (Expression (Name p4 Load) lineno1) lineno1))
       (Some (AttributeBinding p2 p5 lineno1)) lineno1 filename"

text \<open>The line number each declarative node carries.\<close>

fun Python_lineno :: "Python \<Rightarrow> int" where
  "Python_lineno (Python t lineno) = lineno"

fun BoundExpression_lineno :: "BoundExpression \<Rightarrow> int" where
  "BoundExpression_lineno (BoundExpression kind py lineno) = lineno"

fun AttributeBinding_lineno :: "AttributeBinding \<Rightarrow> int" where
  "AttributeBinding_lineno (AttributeBinding name b lineno) = lineno"

fun AttributeDeclaration_lineno :: "AttributeDeclaration \<Rightarrow> int" where
  "AttributeDeclaration_lineno (AttributeDeclaration name t d ev lineno) = lineno"

fun Instantiation_lineno :: "Instantiation \<Rightarrow> int" where
  "Instantiation_lineno (Instantiation name idn items lineno) = lineno"

fun Declaration_lineno :: "Declaration \<Rightarrow> int" where
  "Declaration_lineno (Declaration name base idn doc items lineno) = lineno"

text \<open>
  The spec's words for a line number: tokens carry a "1-based line number", so a line of
  the source is at least 1.
\<close>

definition spec_source_line :: "int \<Rightarrow> bool" where
  "spec_source_line n = (1 \<le> n)"

subsection \<open>Subscripts\<close>

text \<open>
  The fourteen actions of \<open>subscript\<close>, under the names the source gives them (two of the
  names are misspelt there: \<open>p_subcript2\<close> and \<open>p_subscrip6\<close>). Each \<open>Slice\<close> lists the
  keyword arguments exactly as the action writes them.
\<close>

definition p_subscript1 :: "expr slice_node" where
  "p_subscript1 = Ellipsis"

definition p_subcript2 :: "expr \<Rightarrow> expr slice_node" where
  "p_subcript2 p1 = Index p1"

definition p_subscript3 :: "expr slice_node" where
  "p_subscript3 = Slice [(''lower'', None), (''upper'', None), (''step'', None)]"

definition p_subscript4 :: "expr slice_node" where
  "p_subscript4 =
     (let name = Name ''None'' Load
      in Slice [(''lower'', None), (''upper'', None), (''step'', Some name)])"

definition p_subscript5 :: "expr \<Rightarrow> expr slice_node" where
  "p_subscript5 p1 = Slice [(''lower'', Some p1), (''uppper'', None), (''step'', None)]"

definition p_subscrip6 :: "expr \<Rightarrow> expr slice_node" where
  "p_subscrip6 p1 =
     (let name = Name ''None'' Load
      in Slice [(''lower'', Some p1), (''upper'', None), (''step'', Some name)])"

definition p_subscript7 :: "expr \<Rightarrow> expr slice_node" where
  "p_subscript7 p2 = Slice [(''lower'', None), (''upper'', Some p2), (''step'', None)]"

definition p_subscript8 :: "expr \<Rightarrow> expr slice_node" where
  "p_subscript8 p2 =
     (let name = Name ''None'' Load
      in Slice [(''lower'', None), (''upper'', Some p2), (''step'', Some name)])"

definition p_subscript9 :: "expr \<Rightarrow> expr slice_node" where
  "p_subscript9 p2 = Slice [(''lower'', None), (''upper'', None), (''step'', Some p2)]"

definition p_subscript10 :: "expr \<Rightarrow> expr \<Rightarrow> expr slice_node" where
  "p_subscript10 p1 p3 = Slice [(''lower'', Some p1), (''uppper'', Some p3), (''step'', None)]"

definition p_subscript11 :: "expr \<Rightarrow> expr \<Rightarrow> expr slice_node" where
  "p_subscript11 p1 p3 =
     (let name = Name ''None'' Load
      in Slice [(''lower'', Some p1), (''upper'', Some p3), (''step'', Some name)])"

definition p_subscript12 :: "expr \<Rightarrow> expr \<Rightarrow> expr slice_node" where
  "p_subscript12 p2 p4 = Slice [(''lower'', None), (''upper'', Some p2), (''step'', Some p4)]"

definition p_subscript13 :: "expr \<Rightarrow> expr \<Rightarrow> expr \<Rightarrow> expr slice_node" where
  "p_subscript13 p1 p3 p5 =
     Slice [(''lower'', Some p1), (''upper'', Some p3), (''step'', Some p5)]"

definition p_subscript14 :: "expr \<Rightarrow> expr \<Rightarrow> expr slice_node" where
  "p_subscript14 p1 p3 = Slice [(''lower'', Some p1), (''upper'', None), (''step'', Some p3)]"

text \<open>
  The productions of \<open>subscript\<close>, one constructor for each, named after the symbols of the
  production and carrying the values of its \<open>test\<close> symbols; \<open>subscript\<close> maps each
  production to its action, as the docstrings of the actions do. With \<open>x\<close>, \<open>y\<close>, \<open>z\<close> for
  the tests, \<open>test_COLON x\<close> is the form \<open>a[x:]\<close>, \<open>test_COLON_test x y\<close> is \<open>a[x:y]\<close> and
  \<open>test_COLON_test_COLON_test x y z\<close> is \<open>a[x:y:z]\<close>.
\<close>

datatype subscript_form =
    ELLIPSIS_only
  | test_only expr
  | COLON_only
  | DOUBLECOLON_only
  | test_COLON expr
  | test_DOUBLECOLON expr
  | COLON_test expr
  | COLON_test_COLON expr
  | DOUBLECOLON_test expr
  | test_COLON_test expr expr
  | test_COLON_test_COLON expr expr
  | COLON_test_COLON_test expr expr
  | test_COLON_test_COLON_test expr expr expr
  | test_DOUBLECOLON_test expr expr

fun subscript :: "subscript_form \<Rightarrow> expr slice_node" where
  "subscript ELLIPSIS_only = p_subscript1"
| "subscript (test_only x) = p_subcript2 x"
| "subscript COLON_only = p_subscript3"
| "subscript DOUBLECOLON_only = p_subscript4"
| "subscript (test_COLON x) = p_subscript5 x"
| "subscript (test_DOUBLECOLON x) = p_subscrip6 x"
| "subscript (COLON_test y) = p_subscript7 y"
| "subscript (COLON_test_COLON y) = p_subscript8 y"
| "subscript (DOUBLECOLON_test z) = p_subscript9 z"
| "subscript (test_COLON_test x y) = p_subscript10 x y"
| "subscript (test_COLON_test_COLON x y) = p_subscript11 x y"
| "subscript (COLON_test_COLON_test y z) = p_subscript12 y z"
| "subscript (test_COLON_test_COLON_test x y z) = p_subscript13 x y z"
| "subscript (test_DOUBLECOLON_test x z) = p_subscript14 x z"

text \<open>
  Reading a field of a node: \<open>None\<close> when the node has no attribute of that name,
  \<open>Some v\<close> with the value stored otherwise.
\<close>

fun slice_fields :: "'e slice_node \<Rightarrow> (string \<times> 'e option) list" where
  "slice_fields (Slice keywords) = keywords"
| "slice_fields _ = []"

definition get_field :: "string \<Rightarrow> expr slice_node \<Rightarrow> expr option option" where
  "get_field name node = map_of (slice_fields node) name"

text \<open>
  The spec's words for what a slice form means: the upper bound is the expression written
  after the first colon, if there is one. A double colon leaves no place for it.
\<close>

fun spec_upper :: "subscript_form \<Rightarrow> expr option" where
  "spec_upper (COLON_test y) = Some y"
| "spec_upper (COLON_test_COLON y) = Some y"
| "spec_upper (test_COLON_test x y) = Some y"
| "spec_upper (test_COLON_test_COLON x y) = Some y"
| "spec_upper (COLON_test_COLON_test y z) = Some y"
| "spec_upper (test_COLON_test_COLON_test x y z) = Some y"
| "spec_upper _ = None"

fun is_slice_form :: "subscript_form \<Rightarrow> bool" where
  "is_slice_form ELLIPSIS_only = False"
| "is_slice_form (test_only x) = False"
| "is_slice_form _ = True"

subsection \<open>The bitwise layers of the expression grammar\<close>

text \<open>
  An action reads the values of its production through \<open>p[n]\<close>. PLY keeps them in a list
  with one entry for the result, \<open>p[0]\<close>, and one for each symbol of the production,
  \<open>p[1]\<close> to \<open>p[k]\<close>; an index past the end raises \<open>IndexError\<close>. The value of a token is
  its text, the value of a non-terminal is whatever its action assigned to \<open>p[0]\<close>: for
  the layers below a node, or a list of [operator, operand] pairs.
\<close>

datatype pval =
    PNone
  | PTok string
  | PNode expr
  | PPairs "(operator \<times> expr) list"

definition p_get :: "pval list \<Rightarrow> nat \<Rightarrow> error + pval" where
  "p_get p n = (if n < length p then Inr (p ! n) else Inl IndexError)"

definition and_then :: "error + 'a \<Rightarrow> ('a \<Rightarrow> error + 'b) \<Rightarrow> error + 'b" where
  "and_then m f = (case m of Inl e \<Rightarrow> Inl e | Inr x \<Rightarrow> f x)"

text \<open>
  A value stored in a field of a node: a node stays what it is, the text of a token is the
  \<open>str\<close> it is. The other two kinds of value never stand in a slot that these actions
  store in a node.
\<close>

fun as_object :: "pval \<Rightarrow> error + expr" where
  "as_object (PNode e) = Inr e"
| "as_object (PTok s) = Inr (TokenText s)"
| "as_object PNone = Inl (TypeError ''None in place of a node'')"
| "as_object (PPairs xs) = Inl (TypeError ''list in place of a node'')"

text \<open>Iterating over a value, or adding a list to it: only a list allows it.\<close>

fun as_pairs :: "pval \<Rightarrow> error + (operator \<times> expr) list" where
  "as_pairs (PPairs xs) = Inr xs"
| "as_pairs _ = Inl (TypeError ''not a list of pairs'')"

text \<open>\<open>for op, right in pairs: node = ast.BinOp(left=node, op=op, right=right)\<close>\<close>

fun fold_BinOp :: "expr \<Rightarrow> (operator \<times> expr) list \<Rightarrow> expr" where
  "fold_BinOp node [] = node"
| "fold_BinOp node ((op, right) # pairs) = fold_BinOp (BinOp node op right) pairs"

definition p_expr2 :: "pval list \<Rightarrow> error + pval" where
  "p_expr2 p =
     and_then (p_get p 1) (\<lambda>p1. and_then (as_object p1) (\<lambda>node.
     and_then (p_get p 2) (\<lambda>p2. and_then (as_pairs p2) (\<lambda>pairs.
     Inr (PNode (fold_BinOp node pairs))))))"

definition p_expr_list1 :: "pval list \<Rightarrow> error + pval" where
  "p_expr_list1 p =
     and_then (p_get p 2) (\<lambda>p2. and_then (as_object p2) (\<lambda>right.
     Inr (PPairs [(BitOr, right)])))"

definition p_xor_expr1 :: "pval list \<Rightarrow> error + pval" where
  "p_xor_expr1 p = p_get p 1"

definition p_xor_expr2 :: "pval list \<Rightarrow> error + pval" where
  "p_xor_expr2 p =
     and_then (p_get p 1) (\<lambda>p1. and_then (as_object p1) (\<lambda>node.
     and_then (p_get p 2) (\<lambda>p2. and_then (as_pairs p2) (\<lambda>pairs.
     Inr (PNode (fold_BinOp node pairs))))))"

definition p_xor_expr_list1 :: "pval list \<Rightarrow> error + pval" where
  "p_xor_expr_list1 p =
     and_then (p_get p 1) (\<lambda>p1. and_then (as_object p1) (\<lambda>right.
     Inr (PPairs [(BitXor, right)])))"

definition p_xor_expr_list2 :: "pval list \<Rightarrow> error + pval" where
  "p_xor_expr_list2 p =
     and_then (p_get p 1) (\<lambda>p1. and_then (p_get p 3) (\<lambda>p3.
     and_then (as_pairs p1) (\<lambda>pairs. and_then (as_object p3) (\<lambda>right.
     Inr (PPairs (pairs @ [(BitXor, right)]))))))"

definition p_and_expr1 :: "pval list \<Rightarrow> error + pval" where
  "p_and_expr1 p = p_get p 1"

definition p_and_expr2 :: "pval list \<Rightarrow> error + pval" where
  "p_and_expr2 p =
     and_then (p_get p 1) (\<lambda>p1. and_then (as_object p1) (\<lambda>node.
     and_then (p_get p 2) (\<lambda>p2. and_then (as_pairs p2) (\<lambda>pairs.
     Inr (PNode (fold_BinOp node pairs))))))"

definition p_and_expr_list1 :: "pval list \<Rightarrow> error + pval" where
  "p_and_expr_list1 p =
     and_then (p_get p 3) (\<lambda>p3. and_then (as_object p3) (\<lambda>right.
     Inr (PPairs [(BitAnd, right)])))"

definition p_and_expr_list2 :: "pval list \<Rightarrow> error + pval" where
  "p_and_expr_list2 p =
     and_then (p_get p 1) (\<lambda>p1. and_then (p_get p 3) (\<lambda>p3.
     and_then (as_pairs p1) (\<lambda>pairs. and_then (as_object p3) (\<lambda>right.
     Inr (PPairs (pairs @ [(BitAnd, right)]))))))"

text \<open>
  The reductions of \<open>a ^ b\<close> and of \<open>a & b\<close>, where \<open>a\<close> and \<open>b\<close> are the nodes the operands
  were parsed to: the production \<open>xor_expr_list : CIRCUMFLEX and_expr\<close> is reduced first,
  over the slots [result, \<open>^\<close>, b], then \<open>xor_expr : and_expr xor_expr_list\<close> over
  [result, a, pairs]; likewise \<open>and_expr_list : AMPER shift_expr\<close> and
  \<open>and_expr : shift_expr and_expr_list\<close> for \<open>a & b\<close>, and \<open>expr_list : VBAR xor_expr\<close> and
  \<open>expr : xor_expr expr_list\<close> for \<open>a | b\<close>.
\<close>

definition reduce_or :: "expr \<Rightarrow> expr \<Rightarrow> error + pval" where
  "reduce_or a b =
     and_then (p_expr_list1 [PNone, PTok ''|'', PNode b]) (\<lambda>pairs.
     p_expr2 [PNone, PNode a, pairs])"

definition reduce_xor :: "expr \<Rightarrow> expr \<Rightarrow> error + pval" where
  "reduce_xor a b =
     and_then (p_xor_expr_list1 [PNone, PTok ''^'', PNode b]) (\<lambda>pairs.
     p_xor_expr2 [PNone, PNode a, pairs])"

definition reduce_and :: "expr \<Rightarrow> expr \<Rightarrow> error + pval" where
  "reduce_and a b =
     and_then (p_and_expr_list1 [PNone, PTok ''&'', PNode b]) (\<lambda>pairs.
     p_and_expr2 [PNone, PNode a, pairs])"

subsection \<open>Assignment targets\<close>

text \<open>\<open>type(node)\<close>: the classes that the two tables of the source name, and \<open>str\<close>.\<close>

datatype py_type =
    ast_Attribute | ast_Subscript | ast_Name | ast_List | ast_Tuple
  | ast_Lambda | ast_Call | ast_BoolOp | ast_BinOp | ast_UnaryOp | ast_GeneratorExp
  | ast_Yield | ast_ListComp | ast_SetComp | ast_DictComp | ast_Dict | ast_Set | ast_Num
  | ast_Str | ast_Ellipsis | ast_Compare | ast_IfExp
  | py_str

fun node_type :: "expr \<Rightarrow> py_type" where
  "node_type (Name i c) = ast_Name"
| "node_type (Num n) = ast_Num"
| "node_type (Str s) = ast_Str"
| "node_type (Tuple elts c) = ast_Tuple"
| "node_type (List elts c) = ast_List"
| "node_type (Dict ks vs) = ast_Dict"
| "node_type (Set elts) = ast_Set"
| "node_type (BoolOp op vs) = ast_BoolOp"
| "node_type (BinOp l op r) = ast_BinOp"
| "node_type (UnaryOp op v) = ast_UnaryOp"
| "node_type (Compare l ops cs) = ast_Compare"
| "node_type (IfExp b t e) = ast_IfExp"
| "node_type (Lambda args b) = ast_Lambda"
| "node_type (Call f args kws sa ka) = ast_Call"
| "node_type (Attribute v a c) = ast_Attribute"
| "node_type (Subscript v s c) = ast_Subscript"
| "node_type (GeneratorExp e gs) = ast_GeneratorExp"
| "node_type (ListComp e gs) = ast_ListComp"
| "node_type (SetComp e gs) = ast_SetComp"
| "node_type (DictComp k v gs) = ast_DictComp"
| "node_type (TokenText s) = py_str"

definition allowed_store :: "py_type list" where
  "allowed_store = [ast_Attribute, ast_Subscript, ast_Name, ast_List, ast_Tuple]"

definition disallowed_store :: "(py_type \<times> string) list" where
  "disallowed_store =
     [(ast_Lambda, ''lambda''),
      (ast_Call, ''function call''),
      (ast_BoolOp, ''operator''),
      (ast_BinOp, ''operator''),
      (ast_UnaryOp, ''operator''),
      (ast_GeneratorExp, ''generator expression''),
      (ast_Yield, ''yield expression''),
      (ast_ListComp, ''list comprehension''),
      (ast_SetComp, ''set comprehension''),
      (ast_DictComp, ''dict comprehension''),
      (ast_Dict, ''literal''),
      (ast_Set, ''literal''),
      (ast_Num, ''literal''),
      (ast_Str, ''literal''),
      (ast_Ellipsis, ''Ellipsis''),
      (ast_Compare, ''comparison''),
      (ast_IfExp, ''conditional expression'')]"

text \<open>
  \<open>node.ctx = ...\<close>. On a node whose class has a \<open>ctx\<close> field the field changes; on any
  other node Python adds an attribute that is no field of the tree, and the node is as
  before.
\<close>

fun set_ctx :: "expr \<Rightarrow> expr_context \<Rightarrow> expr" where
  "set_ctx (Name i c) ctx = Name i ctx"
| "set_ctx (Attribute v a c) ctx = Attribute v a ctx"
| "set_ctx (Subscript v s c) ctx = Subscript v s ctx"
| "set_ctx (List elts c) ctx = List elts ctx"
| "set_ctx (Tuple elts c) ctx = Tuple elts ctx"
| "set_ctx node ctx = node"

text \<open>
  \<open>set_store_ctxt\<close> changes the nodes in place and returns nothing; the model returns the
  node as it is afterwards. \<open>set_store_items\<close> is the loop
  \<open>for item in items: set_store_ctxt(item)\<close>, which stops at the first item that raises.
  In the last branch the source formats a \<open>SystemError\<close> from the type's name and
  \<open>node.lineno\<close>; with \<open>%d\<close> for a name, and for a \<open>str\<close> that has no \<open>lineno\<close>, Python
  raises an exception of its own before that. \<open>UnexpectedExpression\<close> stands for the
  failure of this branch, whichever exception it is.
\<close>

fun set_store_ctxt :: "expr \<Rightarrow> error + expr"
  and set_store_items :: "expr list \<Rightarrow> error + expr list" where
  "set_store_ctxt node =
     (if node_type node \<in> set allowed_store then
        (case node of
           Tuple elts ctx \<Rightarrow>
             (if length elts = 0 then Inl (EnamlSyntaxError (''can't assign to '' @ ''()''))
              else (case set_store_items elts of
                      Inl e \<Rightarrow> Inl e
                    | Inr items \<Rightarrow> Inr (Tuple items Store)))
         | List elts ctx \<Rightarrow>
             (case set_store_items elts of
                Inl e \<Rightarrow> Inl e
              | Inr items \<Rightarrow> Inr (List items Store))
         | _ \<Rightarrow> Inr (set_ctx node Store))
      else
        (case map_of disallowed_store (node_type node) of
           Some err_msg \<Rightarrow>
             (if err_msg \<noteq> [] then Inl (EnamlSyntaxError (''can't assign to '' @ err_msg))
              else Inr node)
         | None \<Rightarrow> Inl UnexpectedExpression))"
| "set_store_items [] = Inr []"
| "set_store_items (item # items) =
     (case set_store_ctxt item of
        Inl e \<Rightarrow> Inl e
      | Inr item' \<Rightarrow>
          (case set_store_items items of
             Inl e \<Rightarrow> Inl e
           | Inr items' \<Rightarrow> Inr (item' # items')))"

declare set_store_ctxt.simps [simp del]

text \<open>
  The failures \<open>set_store_ctxt\<close> can end in: the failure of its last branch, or an
  \<open>EnamlSyntaxError\<close> whose message is "can't assign to" followed by \<open>()\<close> or by a tag of
  \<open>disallowed_store\<close>.
\<close>

definition store_errors :: "error list" where
  "store_errors =
     UnexpectedExpression #
     map (\<lambda>tag. EnamlSyntaxError (''can't assign to '' @ tag)) (''()'' # map snd disallowed_store)"

text \<open>
  \<open>p_expr_stmt2\<close> for \<open>testlist EQUAL testlist\<close>: \<open>p1\<close> and \<open>p3\<close> are the lists of the two
  test lists, \<open>lineno2\<close> is \<open>p.lineno(2)\<close>.
\<close>

definition p_expr_stmt2 :: "expr list \<Rightarrow> expr list \<Rightarrow> int \<Rightarrow> error + stmt" where
  "p_expr_stmt2 p1 p3 lineno2 =
     (let lhs = p1; rhs = p3
      in case set_store_items lhs of
           Inl e \<Rightarrow> Inl e
         | Inr targets \<Rightarrow>
             (if length rhs > 1 then Inr (Assign targets (Tuple rhs Load) (Some lineno2))
              else (case rhs of
                      [] \<Rightarrow> Inl IndexError
                    | v # _ \<Rightarrow> Inr (Assign targets (set_ctx v Load) (Some lineno2)))))"

text \<open>
  The spec's words for the shapes an assignment target may have: "attribute access,
  subscript, bare name, or list/tuple of such", the empty tuple excluded; and the tree a
  valid target is left as: every target in it in store context.
\<close>

fun spec_store_target :: "expr \<Rightarrow> bool" where
  "spec_store_target (Name i c) = True"
| "spec_store_target (Attribute v a c) = True"
| "spec_store_target (Subscript v s c) = True"
| "spec_store_target (List elts c) = list_all spec_store_target elts"
| "spec_store_target (Tuple elts c) = (elts \<noteq> [] \<and> list_all spec_store_target elts)"
| "spec_store_target _ = False"

fun spec_stored :: "expr \<Rightarrow> expr" where
  "spec_stored (Name i c) = Name i Store"
| "spec_stored (Attribute v a c) = Attribute v a Store"
| "spec_stored (Subscript v s c) = Subscript v s Store"
| "spec_stored (List elts c) = List (map spec_stored elts) Store"
| "spec_stored (Tuple elts c) = Tuple (map spec_stored elts) Store"
| "spec_stored node = node"

text \<open>
  The targets the grammar hands over are nodes: a \<open>str\<close> does not stand for a target, nor
  for an element of a list or tuple of targets.
\<close>

fun targets_are_nodes :: "expr \<Rightarrow> bool" where
  "targets_are_nodes (TokenText s) = False"
| "targets_are_nodes (List elts c) = list_all targets_are_nodes elts"
| "targets_are_nodes (Tuple elts c) = list_all targets_are_nodes elts"
| "targets_are_nodes node = True"

subsection \<open>The other checks that can fail\<close>

text \<open>
  \<open>p_argument3\<close> for \<open>test EQUAL test\<close>: the keyword (arg, value), or the failure of the
  \<open>assert\<close>.
\<close>

definition p_argument3 :: "expr \<Rightarrow> expr \<Rightarrow> error + string \<times> expr" where
  "p_argument3 p1 p3 =
     (case p1 of
        Name i c \<Rightarrow> Inr (i, p3)
      | _ \<Rightarrow> Inl (AssertionError ''Keyword arg must be a Name.''))"

definition id_required_msg :: "string \<Rightarrow> string" where
  "id_required_msg lhs =
     [CHR 0x27] @ ''id'' @ [CHR 0x27] @ '' required. Got '' @ [CHR 0x27] @ lhs @ [CHR 0x27]
       @ '' instead.''"

definition p_identifier :: "string \<Rightarrow> string \<Rightarrow> int \<Rightarrow> error + string" where
  "p_identifier p1 p3 lineno1 =
     (let lhs = p1
      in if lhs \<noteq> ''id'' then raise_enaml_syntax_error (id_required_msg lhs) lineno1
         else Inr p3)"

text \<open>
  \<open>p_error(t)\<close>: the token is given by the file name of its lexer and its line. PLY
  passes \<open>None\<close> when the input ends too early, and reading \<open>t.lexer\<close> then raises
  \<open>AttributeError\<close>.
\<close>

definition p_error :: "(string \<times> int) option \<Rightarrow> error + 'a" where
  "p_error t =
     (case t of
        None \<Rightarrow> Inl (AttributeError ''lexer'')
      | Some (filename, lineno) \<Rightarrow> raise_syntax_error ''invalid syntax.'' filename lineno)"

text \<open>
  Modelled from the spec: a lexical failure. The lexer (enaml/core/lexer.py) is not among
  the source files; the spec says of it: "On any lexical error (unterminated string,
  invalid character, unbalanced indentation, unterminated raw block) fails with
  LexicalError{filename, line, message}", and \<open>raise_syntax_error\<close>, which raises such a
  value, is the lexer's own helper.
\<close>

definition lexical_failure :: "string \<Rightarrow> string \<Rightarrow> int \<Rightarrow> error + 'a" where
  "lexical_failure msg filename lineno = raise_syntax_error msg filename lineno"

text \<open>
  The arguments of a lambda. \<open>p_fpdef1\<close> builds a parameter name; the actions of
  \<open>varargslist_list\<close> return the pair (args, defaults). \<open>p_varargslist_list3\<close>, for
  \<open>varargslist_list COMMA fpdef\<close>, raises Python's \<open>SyntaxError\<close> from a message alone when
  a parameter without a default follows one with a default.
\<close>

definition p_fpdef1 :: "string \<Rightarrow> expr" where
  "p_fpdef1 p1 = Name p1 Param"

definition p_varargslist_list1 :: "expr \<Rightarrow> expr list \<times> expr list" where
  "p_varargslist_list1 p2 = ([p2], [])"

definition p_varargslist_list2 :: "expr \<Rightarrow> expr \<Rightarrow> expr list \<times> expr list" where
  "p_varargslist_list2 p2 p4 = ([p2], [p4])"

definition p_varargslist_list3 ::
  "expr list \<times> expr list \<Rightarrow> expr \<Rightarrow> error + expr list \<times> expr list" where
  "p_varargslist_list3 p1 p3 =
     (case p1 of (list_args, list_defaults) \<Rightarrow>
        if list_defaults \<noteq> []
        then Inl (PySyntaxError ''non-default argument follows default argument.'')
        else (let args = list_args @ [p3] in Inr (args, list_defaults)))"

section \<open>Properties\<close>

subsection \<open>Lemmas on the assignment-target walk\<close>

lemma and_then_simps [simp]:
  "and_then (Inl e) f = Inl e" "and_then (Inr x) f = f x"
  by (simp_all add: and_then_def)

lemma set_store_ctxt_allowed [simp]:
  "set_store_ctxt (Name i c) = Inr (Name i Store)"
  "set_store_ctxt (Attribute v a c) = Inr (Attribute v a Store)"
  "set_store_ctxt (Subscript v s c) = Inr (Subscript v s Store)"
  "set_store_ctxt (List elts c) =
     (case set_store_items elts of Inl e \<Rightarrow> Inl e | Inr items \<Rightarrow> Inr (List items Store))"
  "set_store_ctxt (Tuple elts c) =
     (if elts = [] then Inl (EnamlSyntaxError ''can't assign to ()'')
      else (case set_store_items elts of Inl e \<Rightarrow> Inl e | Inr items \<Rightarrow> Inr (Tuple items Store)))"
  by (simp_all add: set_store_ctxt.simps allowed_store_def)

lemma set_store_ctxt_disallowed [simp]:
  "set_store_ctxt (Lambda args b) = Inl (EnamlSyntaxError ''can't assign to lambda'')"
  "set_store_ctxt (Call f as kws sa ka) = Inl (EnamlSyntaxError ''can't assign to function call'')"
  "set_store_ctxt (BoolOp bop vs) = Inl (EnamlSyntaxError ''can't assign to operator'')"
  "set_store_ctxt (BinOp l op r) = Inl (EnamlSyntaxError ''can't assign to operator'')"
  "set_store_ctxt (UnaryOp uop v) = Inl (EnamlSyntaxError ''can't assign to operator'')"
  "set_store_ctxt (GeneratorExp el gs) = Inl (EnamlSyntaxError ''can't assign to generator expression'')"
  "set_store_ctxt (ListComp el gs) = Inl (EnamlSyntaxError ''can't assign to list comprehension'')"
  "set_store_ctxt (SetComp el gs) = Inl (EnamlSyntaxError ''can't assign to set comprehension'')"
  "set_store_ctxt (DictComp k v gs) = Inl (EnamlSyntaxError ''can't assign to dict comprehension'')"
  "set_store_ctxt (Dict ks vs) = Inl (EnamlSyntaxError ''can't assign to literal'')"
  "set_store_ctxt (Set vs) = Inl (EnamlSyntaxError ''can't assign to literal'')"
  "set_store_ctxt (Num n) = Inl (EnamlSyntaxError ''can't assign to literal'')"
  "set_store_ctxt (Str s) = Inl (EnamlSyntaxError ''can't assign to literal'')"
  "set_store_ctxt (Compare l ops cs) = Inl (EnamlSyntaxError ''can't assign to comparison'')"
  "set_store_ctxt (IfExp b t e) = Inl (EnamlSyntaxError ''can't assign to conditional expression'')"
  "set_store_ctxt (TokenText s) = Inl UnexpectedExpression"
  by (simp_all add: set_store_ctxt.simps allowed_store_def disallowed_store_def)

lemma store_ok:
  shows "spec_store_target n \<longrightarrow> set_store_ctxt n = Inr (spec_stored n)"
    and "list_all spec_store_target es \<longrightarrow> set_store_items es = Inr (map spec_stored es)"
proof (induction n and es rule: set_store_ctxt_set_store_items.induct)
  case (1 node)
  then show ?case
    by (cases node) (auto simp: allowed_store_def)
next
  case 2
  then show ?case by simp
next
  case (3 item items)
  then show ?case by auto
qed

lemma store_only:
  shows "(\<exists>n'. set_store_ctxt n = Inr n') \<longrightarrow> spec_store_target n"
    and "(\<exists>es'. set_store_items es = Inr es') \<longrightarrow> list_all spec_store_target es"
proof (induction n and es rule: set_store_ctxt_set_store_items.induct)
  case (1 node)
  then show ?case
    by (cases node) (auto simp: allowed_store_def split: sum.splits if_splits)
next
  case 2
  then show ?case by simp
next
  case (3 item items)
  then show ?case by (auto split: sum.splits)
qed

lemma store_errors_mem [simp]:
  "UnexpectedExpression \<in> set store_errors"
  "EnamlSyntaxError ''can't assign to ()'' \<in> set store_errors"
  "EnamlSyntaxError ''can't assign to lambda'' \<in> set store_errors"
  "EnamlSyntaxError ''can't assign to function call'' \<in> set store_errors"
  "EnamlSyntaxError ''can't assign to operator'' \<in> set store_errors"
  "EnamlSyntaxError ''can't assign to generator expression'' \<in> set store_errors"
  "EnamlSyntaxError ''can't assign to list comprehension'' \<in> set store_errors"
  "EnamlSyntaxError ''can't assign to set comprehension'' \<in> set store_errors"
  "EnamlSyntaxError ''can't assign to dict comprehension'' \<in> set store_errors"
  "EnamlSyntaxError ''can't assign to literal'' \<in> set store_errors"
  "EnamlSyntaxError ''can't assign to comparison'' \<in> set store_errors"
  "EnamlSyntaxError ''can't assign to conditional expression'' \<in> set store_errors"
  by (simp_all add: store_errors_def disallowed_store_def)

lemma store_fail:
  shows "set_store_ctxt n = Inl e \<longrightarrow> e \<in> set store_errors"
    and "set_store_items es = Inl e \<longrightarrow> e \<in> set store_errors"
proof (induction n and es rule: set_store_ctxt_set_store_items.induct)
  case (1 node)
  then show ?case
    by (cases node) (auto simp: allowed_store_def split: sum.splits if_splits)
next
  case 2
  then show ?case by simp
next
  case (3 item items)
  then show ?case by (auto split: sum.splits)
qed


lemma store_errors_unlocated:
  "e \<in> set store_errors \<Longrightarrow> err_filename e = None \<and> err_lineno e = None"
  by (auto simp: store_errors_def)

lemma store_expected:
  shows "targets_are_nodes n \<longrightarrow> set_store_ctxt n \<noteq> Inl UnexpectedExpression"
    and "list_all targets_are_nodes es \<longrightarrow> set_store_items es \<noteq> Inl UnexpectedExpression"
proof (induction n and es rule: set_store_ctxt_set_store_items.induct)
  case (1 node)
  then show ?case
    by (cases node) (auto simp: allowed_store_def split: sum.splits if_splits)
next
  case 2
  then show ?case by simp
next
  case (3 item items)
  then show ?case by (auto split: sum.splits)
qed

lemma store_errors_named:
  "e \<in> set store_errors \<Longrightarrow> e \<noteq> UnexpectedExpression \<Longrightarrow>
     \<exists>tag. e = EnamlSyntaxError (''can't assign to '' @ tag)
       \<and> tag \<in> set (''()'' # map snd disallowed_store)"
  unfolding store_errors_def by auto

subsection \<open>Attribute keyword validation\<close>

text \<open>
  Claim C8. \<open>build_attr_declaration\<close> raises a located syntax error, whose message reports
  the offending keyword and the expected keywords 'attr' and 'event', if and only if the
  keyword is neither 'attr' nor 'event'. With 'attr' the result is an
  \<open>AttributeDeclaration\<close> whose event flag is false, with 'event' one whose flag is true,
  and in both the given name, type node, default binding and line number are the fields of
  the result, unchanged.
\<close>

theorem build_attr_declaration_keyword:
  "((\<exists>e. build_attr_declaration kw name type_node dflt lineno filename = Inl e)
      \<longleftrightarrow> kw \<noteq> ''attr'' \<and> kw \<noteq> ''event'')
   \<and> (kw \<noteq> ''attr'' \<and> kw \<noteq> ''event'' \<longrightarrow>
        build_attr_declaration kw name type_node dflt lineno filename =
          Inl (SyntaxError filename lineno
                (''Expected keyword 'attr' or 'event', got '' @ [CHR 0x27] @ kw @ [CHR 0x27]
                   @ '' instead.'')))
   \<and> build_attr_declaration ''attr'' name type_node dflt lineno filename =
        Inr (AttributeDeclaration name type_node dflt False lineno)
   \<and> build_attr_declaration ''event'' name type_node dflt lineno filename =
        Inr (AttributeDeclaration name type_node dflt True lineno)"
  by (simp add: build_attr_declaration_def raise_syntax_error_def expected_keyword_msg_def)

theorem build_attr_declaration_keyword_witness:
  "build_attr_declaration ''evnt'' ''clicked'' None None 7 ''main.enaml'' =
     Inl (SyntaxError ''main.enaml'' 7 ''Expected keyword 'attr' or 'event', got 'evnt' instead.'')
   \<and> build_attr_declaration ''attr'' ''clicked'' None None 7 ''main.enaml'' =
       Inr (AttributeDeclaration ''clicked'' None None False 7)
   \<and> build_attr_declaration ''event'' ''clicked'' None None 7 ''main.enaml'' =
       Inr (AttributeDeclaration ''clicked'' None None True 7)"
  using build_attr_declaration_keyword [of "''evnt''" "''clicked''" None None 7 "''main.enaml''"]
  by simp

subsection \<open>Operator translation\<close>

text \<open>
  Claim C2. For each of the five binding operator texts \<open>=\<close>, \<open>:=\<close>, \<open><<\<close>, \<open>>>\<close>, \<open>::\<close>,
  \<open>translate_operator\<close> returns the identifier \<open>__operator_<Name>__\<close> (Equal, ColonEqual,
  LessLess, GreaterGreater, ColonColon), and the five identifiers are pairwise distinct.
  Only these five texts reach \<open>translate_operator\<close>: it is called by the three binding
  actions alone, every production of \<open>binding\<close> starts with one of the five tokens, and
  for each of them the call succeeds with that token's identifier.
\<close>

theorem translate_operator_binding_tokens:
  "translate_operator ''='' = Inr ''__operator_Equal__''
   \<and> translate_operator '':='' = Inr ''__operator_ColonEqual__''
   \<and> translate_operator ''<<'' = Inr ''__operator_LessLess__''
   \<and> translate_operator ''>>'' = Inr ''__operator_GreaterGreater__''
   \<and> translate_operator ''::'' = Inr ''__operator_ColonColon__''
   \<and> distinct [''__operator_Equal__'', ''__operator_ColonEqual__'', ''__operator_LessLess__'',
         ''__operator_GreaterGreater__'', ''__operator_ColonColon__'']
   \<and> (\<forall>tok. token_text tok \<in> set [''='', '':='', ''<<'', ''>>'', ''::''])
   \<and> (\<forall>tok body lineno1 r. binding tok body lineno1 = Some r \<longrightarrow>
         (\<exists>operator py. translate_operator (token_text tok) = Inr operator
            \<and> r = Inr (BoundExpression operator py lineno1)))"
proof -
  have five: "translate_operator ''='' = Inr ''__operator_Equal__''"
    "translate_operator '':='' = Inr ''__operator_ColonEqual__''"
    "translate_operator ''<<'' = Inr ''__operator_LessLess__''"
    "translate_operator ''>>'' = Inr ''__operator_GreaterGreater__''"
    "translate_operator ''::'' = Inr ''__operator_ColonColon__''"
    by (simp_all add: translate_operator_def operator_table_def)
  have texts: "token_text tok \<in> set [''='', '':='', ''<<'', ''>>'', ''::'']" for tok
    by (cases tok) simp_all
  have calls: "\<exists>operator py. translate_operator (token_text tok) = Inr operator
      \<and> r = Inr (BoundExpression operator py lineno1)"
    if "binding tok body lineno1 = Some r" for tok body lineno1 r
    using that
    by (cases tok; cases body)
       (auto simp: five p_binding1_def p_binding2_def p_binding3_def)
  have names: "distinct [''__operator_Equal__'', ''__operator_ColonEqual__'',
         ''__operator_LessLess__'', ''__operator_GreaterGreater__'', ''__operator_ColonColon__'']"
    by simp
  show ?thesis
    using five texts calls names by blast
qed

theorem translate_operator_binding_tokens_witness:
  "binding LEFTSHIFT (Test_line (Name ''x'' Load)) 3 =
     Some (Inr (BoundExpression ''__operator_LessLess__''
                  (Python (Expression (Name ''x'' Load) 3) 3) 3))
   \<and> translate_operator (token_text LEFTSHIFT) = Inr ''__operator_LessLess__''"
  using translate_operator_binding_tokens
  by (simp add: p_binding1_def)

subsection \<open>Empty modules\<close>

text \<open>
  Claim C10. The token stream of an empty source (\<open>ENDMARKER\<close>), of a source that is one
  newline (\<open>NEWLINE ENDMARKER\<close>) and of a source that is only a docstring
  (\<open>STRING NEWLINE ENDMARKER\<close>) parses without error to a \<open>Module\<close> with no items; with the
  docstring the module's docstring is the string given, otherwise it is empty.
\<close>

theorem enaml_empty_module:
  "enaml enaml_module [ENDMARKER] = Inr (Module '''' [] (- 1))
   \<and> enaml enaml_module [NEWLINE, ENDMARKER] = Inr (Module '''' [] (- 1))
   \<and> enaml enaml_module [STRING s, NEWLINE, ENDMARKER] = Inr (Module s [] (- 1))
   \<and> Module_body_items (Module s [] (- 1)) = [] \<and> Module_doc (Module s [] (- 1)) = s"
  by (simp add: p_enaml2_def p_enaml3_def)

subsection \<open>Line numbers of the nodes\<close>

text \<open>
  Claim C5 says that every node of a returned tree carries a source line number and that
  the root \<open>Module\<close> gets its line number from context. The empty source is a
  counterexample: its \<open>Module\<close> carries \<open>-1\<close>, which is no line of the source.
\<close>

theorem module_lineno_counterexample:
  "(\<forall>enaml_module. enaml enaml_module [ENDMARKER] = Inr p_enaml2)
   \<and> Module_lineno p_enaml2 = - 1
   \<and> \<not> spec_source_line (Module_lineno p_enaml2)"
  by (simp add: p_enaml2_def spec_source_line_def)

text \<open>
  Claim C5, amended. Every \<open>Declaration\<close>, \<open>Instantiation\<close>, \<open>AttributeDeclaration\<close>,
  \<open>AttributeBinding\<close> and \<open>BoundExpression\<close> a grammar action builds carries the line of the
  first token of its production, the \<open>AttributeBinding\<close> that an attribute declaration builds
  for its default included; so does every \<open>Python\<close> wrapper an action builds for a binding,
  for the base of a declaration, for the type of an attribute and for a raw block. The
  \<open>Python\<close> wrapper of an import, whichever of the ten import forms it is, carries the line
  of the \<open>NEWLINE\<close> token that ends the import statement. The root \<open>Module\<close> carries the
  constant \<open>-1\<close> in each of the four actions that build one, and \<open>-1\<close> is not a line of
  the source.
\<close>

theorem node_linenos:
  "Module_lineno p_enaml2 = - 1 \<and> Module_lineno (p_enaml3 s) = - 1
   \<and> Module_lineno (p_enaml_module1 items) = - 1
   \<and> Module_lineno (p_enaml_module2 s items) = - 1
   \<and> \<not> spec_source_line (- 1)
   \<and> p_declaration n1 n3 (doc, idn, ditems) lineno1 =
       Declaration n1 (Python (Expression (Name n3 Load) lineno1) lineno1) idn doc ditems lineno1
   \<and> Declaration_lineno (p_declaration n1 n3 body lineno1) = lineno1
   \<and> p_instantiation n1 (idn, iitems) lineno1 = Instantiation n1 idn iitems lineno1
   \<and> Instantiation_lineno (p_instantiation n1 ibody lineno1) = lineno1
   \<and> p_attribute_binding n1 b lineno1 = AttributeBinding n1 b lineno1
   \<and> AttributeBinding_lineno (p_attribute_binding n1 b lineno1) = lineno1
   \<and> (\<forall>p1 t be. p_binding1 p1 t lineno1 = Inr be \<longrightarrow>
         (\<exists>kind. be = BoundExpression kind (Python (Expression t lineno1) lineno1) lineno1))
   \<and> (\<forall>p1 st be. p_binding2 p1 st lineno1 = Inr be \<longrightarrow>
         (\<exists>kind. be = BoundExpression kind (Python (Module_body [st]) lineno1) lineno1))
   \<and> (\<forall>p1 sts be. p_binding3 p1 sts lineno1 = Inr be \<longrightarrow>
         (\<exists>kind. be = BoundExpression kind (Python (Module_body sts) lineno1) lineno1))
   \<and> (\<forall>tok bb be. binding tok bb lineno1 = Some (Inr be) \<longrightarrow>
         BoundExpression_lineno be = lineno1
         \<and> (\<exists>kind t. be = BoundExpression kind (Python t lineno1) lineno1))
   \<and> (\<forall>kw name ty dflt filename d.
         build_attr_declaration kw name ty dflt lineno1 filename = Inr d \<longrightarrow>
           d = AttributeDeclaration name ty dflt (kw = ''event'') lineno1
           \<and> AttributeDeclaration_lineno d = lineno1)
   \<and> (\<forall>kw name filename d.
         p_attribute_declaration1 kw name lineno1 filename = Inr d \<longrightarrow>
           d = AttributeDeclaration name None None (kw = ''event'') lineno1)
   \<and> (\<forall>kw name ty filename d.
         p_attribute_declaration2 kw name ty lineno1 filename = Inr d \<longrightarrow>
           d = AttributeDeclaration name
                 (Some (Python (Expression (Name ty Load) lineno1) lineno1)) None
                 (kw = ''event'') lineno1)
   \<and> (\<forall>kw name be filename d.
         p_attribute_declaration3 kw name be lineno1 filename = Inr d \<longrightarrow>
           d = AttributeDeclaration name None (Some (AttributeBinding name be lineno1))
                 (kw = ''event'') lineno1)
   \<and> (\<forall>kw name ty be filename d.
         p_attribute_declaration4 kw name ty be lineno1 filename = Inr d \<longrightarrow>
           d = AttributeDeclaration name
                 (Some (Python (Expression (Name ty Load) lineno1) lineno1))
                 (Some (AttributeBinding name be lineno1)) (kw = ''event'') lineno1)
   \<and> (\<forall>ast_parse filename block node.
         p_enaml_raw_python ast_parse filename lineno1 block = Inr node \<longrightarrow>
           Python_lineno node = lineno1 \<and> (\<exists>t. node = Python t lineno1))
   \<and> (\<forall>form. \<exists>imprt.
         stmt_lineno imprt = Some lineno2
         \<and> import_stmt form lineno2 = imprt
         \<and> p_enaml_import (import_stmt form lineno2) = Inr (Python (Module_body [imprt]) lineno2))
   \<and> (\<forall>imprt. p_enaml_import (p_import_stmt1 imprt lineno2) =
         Inr (Python (Module_body [set_stmt_lineno imprt lineno2]) lineno2))
   \<and> (\<forall>imprt. p_enaml_import (p_import_stmt2 imprt lineno2) =
         Inr (Python (Module_body [set_stmt_lineno imprt lineno2]) lineno2))"
proof -
  have modules: "Module_lineno p_enaml2 = - 1" "Module_lineno (p_enaml3 s) = - 1"
    "Module_lineno (p_enaml_module1 items) = - 1"
    "Module_lineno (p_enaml_module2 s items) = - 1" "\<not> spec_source_line (- 1)"
    by (simp_all add: p_enaml2_def p_enaml3_def p_enaml_module1_def p_enaml_module2_def
        spec_source_line_def)
  have decl: "p_declaration n1 n3 (doc, idn, ditems) lineno1 =
       Declaration n1 (Python (Expression (Name n3 Load) lineno1) lineno1) idn doc ditems lineno1"
    "Declaration_lineno (p_declaration n1 n3 body lineno1) = lineno1"
    by (simp add: p_declaration_def, cases body) (simp add: p_declaration_def)
  have inst: "p_instantiation n1 (idn, iitems) lineno1 = Instantiation n1 idn iitems lineno1"
    "Instantiation_lineno (p_instantiation n1 ibody lineno1) = lineno1"
    by (simp add: p_instantiation_def, cases ibody) (simp add: p_instantiation_def)
  have ab: "p_attribute_binding n1 b lineno1 = AttributeBinding n1 b lineno1"
    "AttributeBinding_lineno (p_attribute_binding n1 b lineno1) = lineno1"
    by (simp_all add: p_attribute_binding_def)
  have b1: "\<exists>kind. be = BoundExpression kind (Python (Expression t lineno1) lineno1) lineno1"
    if "p_binding1 p1 t lineno1 = Inr be" for p1 t be
    using that by (auto simp: p_binding1_def split: sum.splits)
  have b2: "\<exists>kind. be = BoundExpression kind (Python (Module_body [st]) lineno1) lineno1"
    if "p_binding2 p1 st lineno1 = Inr be" for p1 st be
    using that by (auto simp: p_binding2_def split: sum.splits)
  have b3: "\<exists>kind. be = BoundExpression kind (Python (Module_body sts) lineno1) lineno1"
    if "p_binding3 p1 sts lineno1 = Inr be" for p1 sts be
    using that by (auto simp: p_binding3_def split: sum.splits)
  have be: "BoundExpression_lineno be = lineno1
      \<and> (\<exists>kind t. be = BoundExpression kind (Python t lineno1) lineno1)"
    if "binding tok bb lineno1 = Some (Inr be)" for tok bb be
    using that
    by (cases tok; cases bb)
       (auto simp: p_binding1_def p_binding2_def p_binding3_def split: sum.splits)
  have ad: "d = AttributeDeclaration name ty dflt (kw = ''event'') lineno1
      \<and> AttributeDeclaration_lineno d = lineno1"
    if "build_attr_declaration kw name ty dflt lineno1 filename = Inr d"
    for kw name ty dflt filename d
    using that
    by (auto simp: build_attr_declaration_def raise_syntax_error_def split: if_splits)
  have ad1: "d = AttributeDeclaration name None None (kw = ''event'') lineno1"
    if "p_attribute_declaration1 kw name lineno1 filename = Inr d" for kw name filename d
    using that ad unfolding p_attribute_declaration1_def by blast
  have ad2: "d = AttributeDeclaration name
                 (Some (Python (Expression (Name ty Load) lineno1) lineno1)) None
                 (kw = ''event'') lineno1"
    if "p_attribute_declaration2 kw name ty lineno1 filename = Inr d" for kw name ty filename d
    using that ad unfolding p_attribute_declaration2_def by blast
  have ad3: "d = AttributeDeclaration name None (Some (AttributeBinding name b3 lineno1))
                 (kw = ''event'') lineno1"
    if "p_attribute_declaration3 kw name b3 lineno1 filename = Inr d" for kw name b3 filename d
    using that ad unfolding p_attribute_declaration3_def by blast
  have ad4: "d = AttributeDeclaration name
                 (Some (Python (Expression (Name ty Load) lineno1) lineno1))
                 (Some (AttributeBinding name b5 lineno1)) (kw = ''event'') lineno1"
    if "p_attribute_declaration4 kw name ty b5 lineno1 filename = Inr d"
    for kw name ty b5 filename d
    using that ad unfolding p_attribute_declaration4_def by blast
  have raw: "Python_lineno node = lineno1 \<and> (\<exists>t. node = Python t lineno1)"
    if "p_enaml_raw_python ast_parse filename lineno1 block = Inr node"
    for ast_parse filename block node
    using that
    by (auto simp: p_enaml_raw_python_def raise_syntax_error_def Let_def split: sum.splits)
  have set_line: "stmt_lineno (set_stmt_lineno imprt lineno2) = Some lineno2" for imprt
    by (cases imprt) simp_all
  have imp1: "p_enaml_import (p_import_stmt1 imprt lineno2) =
         Inr (Python (Module_body [set_stmt_lineno imprt lineno2]) lineno2)" for imprt
    by (simp add: p_enaml_import_def p_import_stmt1_def set_line)
  have imp2: "p_enaml_import (p_import_stmt2 imprt lineno2) =
         Inr (Python (Module_body [set_stmt_lineno imprt lineno2]) lineno2)" for imprt
    by (simp add: p_enaml_import_def p_import_stmt2_def set_line)
  have forms: "\<exists>imprt. stmt_lineno imprt = Some lineno2
         \<and> import_stmt form lineno2 = imprt
         \<and> p_enaml_import (import_stmt form lineno2) = Inr (Python (Module_body [imprt]) lineno2)"
    for form
    by (cases form) (simp_all add: imp1 imp2, simp_all add: p_import_stmt1_def p_import_stmt2_def set_line)
  have bindings:
    "\<forall>p1 t be. p_binding1 p1 t lineno1 = Inr be \<longrightarrow>
         (\<exists>kind. be = BoundExpression kind (Python (Expression t lineno1) lineno1) lineno1)"
    "\<forall>p1 st be. p_binding2 p1 st lineno1 = Inr be \<longrightarrow>
         (\<exists>kind. be = BoundExpression kind (Python (Module_body [st]) lineno1) lineno1)"
    "\<forall>p1 sts be. p_binding3 p1 sts lineno1 = Inr be \<longrightarrow>
         (\<exists>kind. be = BoundExpression kind (Python (Module_body sts) lineno1) lineno1)"
    "\<forall>tok bb be. binding tok bb lineno1 = Some (Inr be) \<longrightarrow>
         BoundExpression_lineno be = lineno1
         \<and> (\<exists>kind t. be = BoundExpression kind (Python t lineno1) lineno1)"
    using b1 apply blast
    using b2 apply blast
    using b3 apply blast
    using be apply blast
    done
  have attributes:
    "\<forall>kw name ty dflt filename d.
         build_attr_declaration kw name ty dflt lineno1 filename = Inr d \<longrightarrow>
           d = AttributeDeclaration name ty dflt (kw = ''event'') lineno1
           \<and> AttributeDeclaration_lineno d = lineno1"
    "\<forall>kw name filename d.
         p_attribute_declaration1 kw name lineno1 filename = Inr d \<longrightarrow>
           d = AttributeDeclaration name None None (kw = ''event'') lineno1"
    "\<forall>kw name ty filename d.
         p_attribute_declaration2 kw name ty lineno1 filename = Inr d \<longrightarrow>
           d = AttributeDeclaration name
                 (Some (Python (Expression (Name ty Load) lineno1) lineno1)) None
                 (kw = ''event'') lineno1"
    "\<forall>kw name be filename d.
         p_attribute_declaration3 kw name be lineno1 filename = Inr d \<longrightarrow>
           d = AttributeDeclaration name None (Some (AttributeBinding name be lineno1))
                 (kw = ''event'') lineno1"
    "\<forall>kw name ty be filename d.
         p_attribute_declaration4 kw name ty be lineno1 filename = Inr d \<longrightarrow>
           d = AttributeDeclaration name
                 (Some (Python (Expression (Name ty Load) lineno1) lineno1))
                 (Some (AttributeBinding name be lineno1)) (kw = ''event'') lineno1"
    using ad apply blast
    using ad1 apply blast
    using ad2 apply blast
    using ad3 apply blast
    using ad4 apply blast
    done
  have blocks: "\<forall>ast_parse filename block node.
         p_enaml_raw_python ast_parse filename lineno1 block = Inr node \<longrightarrow>
           Python_lineno node = lineno1 \<and> (\<exists>t. node = Python t lineno1)"
    using raw by blast
  have import_lines:
    "\<forall>form. \<exists>imprt.
         stmt_lineno imprt = Some lineno2
         \<and> import_stmt form lineno2 = imprt
         \<and> p_enaml_import (import_stmt form lineno2) = Inr (Python (Module_body [imprt]) lineno2)"
    "\<forall>imprt. p_enaml_import (p_import_stmt1 imprt lineno2) =
         Inr (Python (Module_body [set_stmt_lineno imprt lineno2]) lineno2)"
    "\<forall>imprt. p_enaml_import (p_import_stmt2 imprt lineno2) =
         Inr (Python (Module_body [set_stmt_lineno imprt lineno2]) lineno2)"
    using forms imp1 imp2 by blast+
  show ?thesis
    by (intro conjI modules decl inst ab bindings attributes blocks import_lines)
qed

theorem node_linenos_witness:
  "binding EQUAL (Test_line (Num ''1'')) 12 =
     Some (Inr (BoundExpression ''__operator_Equal__'' (Python (Expression (Num ''1'') 12) 12) 12))
   \<and> p_attribute_declaration3 ''attr'' ''width''
         (BoundExpression ''__operator_Equal__'' (Python (Expression (Num ''1'') 12) 12) 12)
         12 ''main.enaml'' =
       Inr (AttributeDeclaration ''width'' None
              (Some (AttributeBinding ''width''
                 (BoundExpression ''__operator_Equal__'' (Python (Expression (Num ''1'') 12) 12) 12)
                 12))
              False 12)
   \<and> p_enaml_raw_python (\<lambda>block fn. Inr (Parsed block)) ''main.enaml'' 2 ''x = 1'' =
       Inr (Python (Parsed [CHR 0x0A, CHR 0x0A, CHR ''x'', CHR '' '', CHR ''='', CHR '' '', CHR ''1'']) 2)
   \<and> p_enaml_import (import_stmt (Import_from5 [''.''] ''pkg'' (''name'', None)) 3) =
       Inr (Python (Module_body [ImportFrom (Some ''pkg'') (Lone_alias (''name'', None)) 1 (Some 3)]) 3)
   \<and> Module_lineno (p_enaml_module1 []) = - 1"
  using node_linenos [where ?lineno1.0 = 12 and ?lineno2.0 = 3]
  by (simp add: p_binding1_def translate_operator_def operator_table_def
      p_attribute_declaration3_def build_attr_declaration_def p_enaml_raw_python_def
      newlines_def p_enaml_module1_def eval_nat_numeral p_enaml_import_def p_import_stmt2_def
      p_import_from5_def)

subsection \<open>Errors inside raw blocks\<close>

text \<open>
  Claim C7. When the text of a raw block does not parse as Python, the error raised
  reports the line of the block's start in the enclosing file plus the line of the error
  within the block, for every block and every starting line; from line 1 on this differs
  from the line within the block. Python's parser is a parameter: it is assumed to fail on
  the block's text at line \<open>k\<close> of that text, and to count lines, so that \<open>n\<close> newlines
  before a text move the line it reports by \<open>n\<close>.
\<close>

theorem raw_block_error_line:
  assumes fails: "ast_parse py_txt filename = Inl (filename, k)"
    and counts_lines: "\<And>n block j. ast_parse block filename = Inl (filename, j) \<Longrightarrow>
        ast_parse (replicate n (CHR 0x0A) @ block) filename = Inl (filename, int n + j)"
    and start: "1 \<le> lineno1"
  shows "p_enaml_raw_python ast_parse filename lineno1 py_txt =
           Inl (SyntaxError filename (lineno1 + k) ''invalid syntax'')
         \<and> lineno1 + k \<noteq> k"
proof -
  have "ast_parse (newlines lineno1 @ py_txt) filename = Inl (filename, int (nat lineno1) + k)"
    unfolding newlines_def by (rule counts_lines [OF fails])
  moreover have "int (nat lineno1) = lineno1"
    using start by simp
  ultimately show ?thesis
    using start by (simp add: p_enaml_raw_python_def raise_syntax_error_def)
qed

theorem raw_block_error_line_witness:
  "p_enaml_raw_python
     (\<lambda>block fn. Inl (fn, int (length (takeWhile (\<lambda>c. c = CHR 0x0A) block)) + 1))
     ''main.enaml'' 4 ''x = = 1''
   = Inl (SyntaxError ''main.enaml'' 5 ''invalid syntax'')"
proof -
  define parse :: "string \<Rightarrow> string \<Rightarrow> (string \<times> int) + py_tree"
    where "parse = (\<lambda>block fn. Inl (fn, int (length (takeWhile (\<lambda>c. c = CHR 0x0A) block)) + 1))"
  have fails: "parse ''x = = 1'' ''main.enaml'' = Inl (''main.enaml'', 1)"
    by (simp add: parse_def)
  have skip: "takeWhile (\<lambda>c. c = CHR 0x0A) (replicate n (CHR 0x0A) @ block) =
      replicate n (CHR 0x0A) @ takeWhile (\<lambda>c. c = CHR 0x0A) block" for n and block :: string
    by (induction n) simp_all
  have counts: "parse (replicate n (CHR 0x0A) @ block) ''main.enaml'' = Inl (''main.enaml'', int n + j)"
    if "parse block ''main.enaml'' = Inl (''main.enaml'', j)" for n block j
    using that by (auto simp: parse_def skip)
  have "p_enaml_raw_python parse ''main.enaml'' 4 ''x = = 1'' =
      Inl (SyntaxError ''main.enaml'' (4 + 1) ''invalid syntax'') \<and> (4::int) + 1 \<noteq> 1"
    by (rule raw_block_error_line [where ast_parse = parse and py_txt = "''x = = 1''"
          and filename = "''main.enaml''" and k = 1 and ?lineno1.0 = 4, OF fails counts])
       simp_all
  then show ?thesis
    by (simp add: parse_def)
qed

subsection \<open>Assignment targets\<close>

text \<open>
  Claim C1. \<open>set_store_ctxt\<close> accepts exactly a bare name, an attribute access, a
  subscript, and a list or a non-empty tuple whose elements are accepted in turn; on
  success every target it walked through is left in store context. Every other shape is
  rejected: a function call, a lambda, a literal (number, string, dict, set), a comparison,
  a generator expression and a conditional expression with the message "can't assign to"
  followed by the name of the construct, the empty tuple with "can't assign to ()"; the
  error of a failing walk is always one of \<open>store_errors\<close>, and when the targets are nodes
  it is "can't assign to" followed by \<open>()\<close> or by a tag of \<open>disallowed_store\<close>. In \<open>p_expr_stmt2\<close> the
  statements \<open>a.b = 1\<close>, \<open>a[0] = 1\<close>, \<open>(a, b) = (1, 2)\<close> and \<open>[a, b] = [1, 2]\<close> are accepted,
  and \<open>f() = 1\<close>, \<open>lambda: 1 = 2\<close>, \<open>{} = 1\<close> and \<open>() = 1\<close> are rejected.
\<close>

theorem set_store_ctxt_targets:
  "((\<exists>n'. set_store_ctxt n = Inr n') \<longleftrightarrow> spec_store_target n)
   \<and> (spec_store_target n \<longrightarrow> set_store_ctxt n = Inr (spec_stored n))
   \<and> (\<forall>e. set_store_ctxt n = Inl e \<longrightarrow> e \<in> set store_errors)
   \<and> (targets_are_nodes n \<and> \<not> spec_store_target n \<longrightarrow>
        (\<exists>tag. set_store_ctxt n = Inl (EnamlSyntaxError (''can't assign to '' @ tag))
           \<and> tag \<in> set (''()'' # map snd disallowed_store)))
   \<and> set_store_ctxt (Call f args kws sa ka) = Inl (EnamlSyntaxError ''can't assign to function call'')
   \<and> set_store_ctxt (Lambda largs b) = Inl (EnamlSyntaxError ''can't assign to lambda'')
   \<and> set_store_ctxt (Num v) = Inl (EnamlSyntaxError ''can't assign to literal'')
   \<and> set_store_ctxt (Str v) = Inl (EnamlSyntaxError ''can't assign to literal'')
   \<and> set_store_ctxt (Dict ks vs) = Inl (EnamlSyntaxError ''can't assign to literal'')
   \<and> set_store_ctxt (Set vs) = Inl (EnamlSyntaxError ''can't assign to literal'')
   \<and> set_store_ctxt (Compare l ops cs) = Inl (EnamlSyntaxError ''can't assign to comparison'')
   \<and> set_store_ctxt (GeneratorExp el gs) =
        Inl (EnamlSyntaxError ''can't assign to generator expression'')
   \<and> set_store_ctxt (IfExp b t e) = Inl (EnamlSyntaxError ''can't assign to conditional expression'')
   \<and> set_store_ctxt (Tuple [] c) = Inl (EnamlSyntaxError ''can't assign to ()'')
   \<and> p_expr_stmt2 [Attribute (Name ''a'' Load) ''b'' Load] [Num ''1''] lineno2 =
        Inr (Assign [Attribute (Name ''a'' Load) ''b'' Store] (Num ''1'') (Some lineno2))
   \<and> p_expr_stmt2 [Subscript (Name ''a'' Load) (Index (Num ''0'')) Load] [Num ''1''] lineno2 =
        Inr (Assign [Subscript (Name ''a'' Load) (Index (Num ''0'')) Store] (Num ''1'') (Some lineno2))
   \<and> p_expr_stmt2 [Tuple [Name ''a'' Load, Name ''b'' Load] Load]
          [Tuple [Num ''1'', Num ''2''] Load] lineno2 =
        Inr (Assign [Tuple [Name ''a'' Store, Name ''b'' Store] Store]
               (Tuple [Num ''1'', Num ''2''] Load) (Some lineno2))
   \<and> p_expr_stmt2 [List [Name ''a'' Load, Name ''b'' Load] Load]
          [List [Num ''1'', Num ''2''] Load] lineno2 =
        Inr (Assign [List [Name ''a'' Store, Name ''b'' Store] Store]
               (List [Num ''1'', Num ''2''] Load) (Some lineno2))
   \<and> p_expr_stmt2 [Call (Name ''f'' Load) [] [] None None] [Num ''1''] lineno2 =
        Inl (EnamlSyntaxError ''can't assign to function call'')
   \<and> p_expr_stmt2 [Lambda ([], [], None, None) (Num ''1'')] [Num ''2''] lineno2 =
        Inl (EnamlSyntaxError ''can't assign to lambda'')
   \<and> p_expr_stmt2 [Dict [] []] [Num ''1''] lineno2 =
        Inl (EnamlSyntaxError ''can't assign to literal'')
   \<and> p_expr_stmt2 [Tuple [] Load] [Num ''1''] lineno2 =
        Inl (EnamlSyntaxError ''can't assign to ()'')"
proof -
  have accepts: "(\<exists>n'. set_store_ctxt n = Inr n') \<longleftrightarrow> spec_store_target n"
    using store_ok(1) [of n] store_only(1) [of n] by blast
  have result: "spec_store_target n \<longrightarrow> set_store_ctxt n = Inr (spec_stored n)"
    by (rule store_ok)
  have rejects: "\<forall>e. set_store_ctxt n = Inl e \<longrightarrow> e \<in> set store_errors"
    using store_fail(1) [of n] by blast
  have named: "targets_are_nodes n \<and> \<not> spec_store_target n \<longrightarrow>
        (\<exists>tag. set_store_ctxt n = Inl (EnamlSyntaxError (''can't assign to '' @ tag))
           \<and> tag \<in> set (''()'' # map snd disallowed_store))"
  proof
    assume shape: "targets_are_nodes n \<and> \<not> spec_store_target n"
    then obtain e where e: "set_store_ctxt n = Inl e"
      using accepts by (cases "set_store_ctxt n") auto
    have "e \<in> set store_errors"
      using e rejects by blast
    moreover have "e \<noteq> UnexpectedExpression"
      using e shape store_expected(1) [of n] by auto
    ultimately show "\<exists>tag. set_store_ctxt n = Inl (EnamlSyntaxError (''can't assign to '' @ tag))
           \<and> tag \<in> set (''()'' # map snd disallowed_store)"
      using e store_errors_named [of e] by auto
  qed
  have shapes:
    "set_store_ctxt (Call f args kws sa ka) = Inl (EnamlSyntaxError ''can't assign to function call'')"
    "set_store_ctxt (Lambda largs b) = Inl (EnamlSyntaxError ''can't assign to lambda'')"
    "set_store_ctxt (Num v) = Inl (EnamlSyntaxError ''can't assign to literal'')"
    "set_store_ctxt (Str v) = Inl (EnamlSyntaxError ''can't assign to literal'')"
    "set_store_ctxt (Dict ks vs) = Inl (EnamlSyntaxError ''can't assign to literal'')"
    "set_store_ctxt (Set vs) = Inl (EnamlSyntaxError ''can't assign to literal'')"
    "set_store_ctxt (Compare l ops cs) = Inl (EnamlSyntaxError ''can't assign to comparison'')"
    "set_store_ctxt (GeneratorExp el gs) =
        Inl (EnamlSyntaxError ''can't assign to generator expression'')"
    "set_store_ctxt (IfExp b t e) = Inl (EnamlSyntaxError ''can't assign to conditional expression'')"
    "set_store_ctxt (Tuple [] c) = Inl (EnamlSyntaxError ''can't assign to ()'')"
    by simp_all
  have accepted:
    "p_expr_stmt2 [Attribute (Name ''a'' Load) ''b'' Load] [Num ''1''] lineno2 =
        Inr (Assign [Attribute (Name ''a'' Load) ''b'' Store] (Num ''1'') (Some lineno2))"
    "p_expr_stmt2 [Subscript (Name ''a'' Load) (Index (Num ''0'')) Load] [Num ''1''] lineno2 =
        Inr (Assign [Subscript (Name ''a'' Load) (Index (Num ''0'')) Store] (Num ''1'') (Some lineno2))"
    "p_expr_stmt2 [Tuple [Name ''a'' Load, Name ''b'' Load] Load]
          [Tuple [Num ''1'', Num ''2''] Load] lineno2 =
        Inr (Assign [Tuple [Name ''a'' Store, Name ''b'' Store] Store]
               (Tuple [Num ''1'', Num ''2''] Load) (Some lineno2))"
    "p_expr_stmt2 [List [Name ''a'' Load, Name ''b'' Load] Load]
          [List [Num ''1'', Num ''2''] Load] lineno2 =
        Inr (Assign [List [Name ''a'' Store, Name ''b'' Store] Store]
               (List [Num ''1'', Num ''2''] Load) (Some lineno2))"
    by (simp_all add: p_expr_stmt2_def)
  have rejected:
    "p_expr_stmt2 [Call (Name ''f'' Load) [] [] None None] [Num ''1''] lineno2 =
        Inl (EnamlSyntaxError ''can't assign to function call'')"
    "p_expr_stmt2 [Lambda ([], [], None, None) (Num ''1'')] [Num ''2''] lineno2 =
        Inl (EnamlSyntaxError ''can't assign to lambda'')"
    "p_expr_stmt2 [Dict [] []] [Num ''1''] lineno2 =
        Inl (EnamlSyntaxError ''can't assign to literal'')"
    "p_expr_stmt2 [Tuple [] Load] [Num ''1''] lineno2 =
        Inl (EnamlSyntaxError ''can't assign to ()'')"
    by (simp_all add: p_expr_stmt2_def)
  show ?thesis
    by (intro conjI accepts result rejects named shapes accepted rejected)
qed

theorem set_store_ctxt_targets_witness:
  "spec_store_target (Tuple [Name ''a'' Load, List [Attribute (Name ''b'' Load) ''c'' Load] Load] Load)
   \<and> set_store_ctxt (Tuple [Name ''a'' Load, List [Attribute (Name ''b'' Load) ''c'' Load] Load] Load) =
       Inr (Tuple [Name ''a'' Store, List [Attribute (Name ''b'' Load) ''c'' Store] Store] Store)
   \<and> \<not> spec_store_target (Tuple [Name ''a'' Load, Call (Name ''f'' Load) [] [] None None] Load)
   \<and> targets_are_nodes (Tuple [Name ''a'' Load, Call (Name ''f'' Load) [] [] None None] Load)
   \<and> set_store_ctxt (Tuple [Name ''a'' Load, Call (Name ''f'' Load) [] [] None None] Load) =
       Inl (EnamlSyntaxError ''can't assign to function call'')
   \<and> EnamlSyntaxError ''can't assign to function call'' \<in> set store_errors"
  using set_store_ctxt_targets
    [of "Tuple [Name ''a'' Load, List [Attribute (Name ''b'' Load) ''c'' Load] Load] Load"]
    set_store_ctxt_targets
    [of "Tuple [Name ''a'' Load, Call (Name ''f'' Load) [] [] None None] Load"]
  by simp

subsection \<open>What a failure carries\<close>

text \<open>
  Claim C4 says that every failure of a parse is one structured error with the file name,
  the line number and a message, and that none is a bare assertion failure. The statement
  \<open>f() = 1\<close> is a counterexample: its error is an \<open>EnamlSyntaxError\<close> made of a message
  alone, with no file name and no line number; and the keyword argument of \<open>g(1=2)\<close> fails
  the \<open>assert\<close> of \<open>p_argument3\<close>.
\<close>

theorem failure_values_counterexample:
  "p_expr_stmt2 [Call (Name ''f'' Load) [] [] None None] [Num ''1''] 3 =
     Inl (EnamlSyntaxError ''can't assign to function call'')
   \<and> err_filename (EnamlSyntaxError ''can't assign to function call'') = None
   \<and> err_lineno (EnamlSyntaxError ''can't assign to function call'') = None
   \<and> err_message (EnamlSyntaxError ''can't assign to function call'') =
       Some ''can't assign to function call''
   \<and> p_argument3 (Num ''1'') (Num ''2'') = Inl (AssertionError ''Keyword arg must be a Name.'')"
  by (simp add: p_expr_stmt2_def p_argument3_def)

text \<open>
  Claim C4, amended. Every lexical failure, every grammar-level failure (\<open>p_error\<close> on an
  unexpected token), every attribute-keyword failure and every failure of a raw block to
  parse is a single structured error that carries the file name, the line number and a
  message. An identifier failure is an \<open>EnamlSyntaxError\<close> that carries a message alone,
  which ends with the line number in words, and no file name. An assignment-target
  failure is an \<open>EnamlSyntaxError\<close> that carries only the message "can't assign to"
  followed by \<open>()\<close> or by the tag of the construct, with no file name and no line number.
  Two more failure paths raise an error without file name and line number: a keyword
  argument whose left side is not a name fails the \<open>assert\<close> of \<open>p_argument3\<close>, and a
  parameter without a default after one with a default makes \<open>p_varargslist_list3\<close> raise
  Python's \<open>SyntaxError\<close> from a message alone. Each of these failures happens exactly
  under the condition given, and is the only failure of its action.
\<close>

theorem failure_values:
  "lexical_failure msg filename lineno = Inl (SyntaxError filename lineno msg)
   \<and> p_error (Some (filename, lineno)) = Inl (SyntaxError filename lineno ''invalid syntax.'')
   \<and> (\<forall>e. build_attr_declaration kw name ty dflt lineno filename = Inl e \<longleftrightarrow>
         kw \<noteq> ''attr'' \<and> kw \<noteq> ''event''
         \<and> e = SyntaxError filename lineno (expected_keyword_msg kw))
   \<and> (\<forall>ast_parse block e. p_enaml_raw_python ast_parse filename lineno block = Inl e \<longleftrightarrow>
         (\<exists>f l. ast_parse (newlines lineno @ block) filename = Inl (f, l)
            \<and> e = SyntaxError f l ''invalid syntax''))
   \<and> err_filename (SyntaxError filename lineno msg) = Some filename
   \<and> err_lineno (SyntaxError filename lineno msg) = Some lineno
   \<and> err_message (SyntaxError filename lineno msg) = Some msg
   \<and> (\<forall>e. p_identifier lhs name lineno = Inl e \<longleftrightarrow>
         lhs \<noteq> ''id''
         \<and> e = EnamlSyntaxError (id_required_msg lhs @ '' - lineno ('' @ str_int lineno @ '')''))
   \<and> (targets_are_nodes node \<longrightarrow>
        (\<forall>e. set_store_ctxt node = Inl e \<longrightarrow>
           (\<exists>tag. e = EnamlSyntaxError (''can't assign to '' @ tag)
              \<and> tag \<in> set (''()'' # map snd disallowed_store))))
   \<and> (targets_are_nodes node \<longrightarrow>
        ((\<exists>e. set_store_ctxt node = Inl e) \<longleftrightarrow> \<not> spec_store_target node))
   \<and> err_filename (EnamlSyntaxError m) = None \<and> err_lineno (EnamlSyntaxError m) = None
   \<and> err_message (EnamlSyntaxError m) = Some m
   \<and> (\<forall>e. p_argument3 arg v = Inl e \<longleftrightarrow>
         (\<forall>i c. arg \<noteq> Name i c) \<and> e = AssertionError ''Keyword arg must be a Name.'')
   \<and> err_filename (AssertionError m) = None \<and> err_lineno (AssertionError m) = None
   \<and> (\<forall>e. p_varargslist_list3 (list_args, list_defaults) fpdef = Inl e \<longleftrightarrow>
         list_defaults \<noteq> []
         \<and> e = PySyntaxError ''non-default argument follows default argument.'')
   \<and> err_filename (PySyntaxError m) = None \<and> err_lineno (PySyntaxError m) = None"
proof -
  have lexical: "lexical_failure msg filename lineno =
      (Inl (SyntaxError filename lineno msg) :: error + 'a)"
    by (simp add: lexical_failure_def raise_syntax_error_def)
  have grammar: "p_error (Some (filename, lineno)) =
      (Inl (SyntaxError filename lineno ''invalid syntax.'') :: error + 'b)"
    by (simp add: p_error_def raise_syntax_error_def)
  have keyword: "\<forall>e. build_attr_declaration kw name ty dflt lineno filename = Inl e \<longleftrightarrow>
         kw \<noteq> ''attr'' \<and> kw \<noteq> ''event''
         \<and> e = SyntaxError filename lineno (expected_keyword_msg kw)"
    by (auto simp: build_attr_declaration_def raise_syntax_error_def)
  have raw: "\<forall>ast_parse block e. p_enaml_raw_python ast_parse filename lineno block = Inl e \<longleftrightarrow>
         (\<exists>f l. ast_parse (newlines lineno @ block) filename = Inl (f, l)
            \<and> e = SyntaxError f l ''invalid syntax'')"
    by (auto simp: p_enaml_raw_python_def raise_syntax_error_def split: sum.splits)
  have ident: "\<forall>e. p_identifier lhs name lineno = Inl e \<longleftrightarrow>
         lhs \<noteq> ''id''
         \<and> e = EnamlSyntaxError (id_required_msg lhs @ '' - lineno ('' @ str_int lineno @ '')'')"
    by (auto simp: p_identifier_def raise_enaml_syntax_error_def)
  have target: "targets_are_nodes node \<longrightarrow>
        (\<forall>e. set_store_ctxt node = Inl e \<longrightarrow>
           (\<exists>tag. e = EnamlSyntaxError (''can't assign to '' @ tag)
              \<and> tag \<in> set (''()'' # map snd disallowed_store)))"
  proof (intro impI allI)
    fix e
    assume nodes: "targets_are_nodes node" and e: "set_store_ctxt node = Inl e"
    have "e \<in> set store_errors"
      using e store_fail(1) [of node e] by blast
    moreover have "e \<noteq> UnexpectedExpression"
      using e nodes store_expected(1) [of node] by auto
    ultimately show "\<exists>tag. e = EnamlSyntaxError (''can't assign to '' @ tag)
              \<and> tag \<in> set (''()'' # map snd disallowed_store)"
      by (rule store_errors_named)
  qed
  have target_when: "targets_are_nodes node \<longrightarrow>
        ((\<exists>e. set_store_ctxt node = Inl e) \<longleftrightarrow> \<not> spec_store_target node)"
    using store_ok(1) [of node] store_only(1) [of node]
    by (cases "set_store_ctxt node") auto
  have keyword_arg: "\<forall>e. p_argument3 arg v = Inl e \<longleftrightarrow>
         (\<forall>i c. arg \<noteq> Name i c) \<and> e = AssertionError ''Keyword arg must be a Name.''"
    by (cases arg) (auto simp: p_argument3_def)
  have default_order: "\<forall>e. p_varargslist_list3 (list_args, list_defaults) fpdef = Inl e \<longleftrightarrow>
         list_defaults \<noteq> []
         \<and> e = PySyntaxError ''non-default argument follows default argument.''"
    by (auto simp: p_varargslist_list3_def)
  show ?thesis
    by (intro conjI lexical grammar keyword raw ident target target_when keyword_arg
        default_order) simp_all
qed

theorem failure_values_witness:
  "build_attr_declaration ''evnt'' ''clicked'' None None 12 ''main.enaml'' =
     Inl (SyntaxError ''main.enaml'' 12 ''Expected keyword 'attr' or 'event', got 'evnt' instead.'')
   \<and> p_enaml_raw_python (\<lambda>block fn. Inl (fn, 14)) ''main.enaml'' 12 ''x = = 1'' =
       Inl (SyntaxError ''main.enaml'' 14 ''invalid syntax'')
   \<and> p_identifier ''idd'' ''clicked'' 12 =
       Inl (EnamlSyntaxError (CHR 0x27 # ''id' required. Got 'idd' instead. - lineno (12)''))
   \<and> targets_are_nodes (Tuple [Name ''a'' Load, Num ''1''] Load)
   \<and> \<not> spec_store_target (Tuple [Name ''a'' Load, Num ''1''] Load)
   \<and> set_store_ctxt (Tuple [Name ''a'' Load, Num ''1''] Load) =
       Inl (EnamlSyntaxError ''can't assign to literal'')
   \<and> p_argument3 (Num ''1'') (Num ''2'') = Inl (AssertionError ''Keyword arg must be a Name.'')
   \<and> p_varargslist_list3 (p_varargslist_list2 (p_fpdef1 ''b'') (Num ''1'')) (p_fpdef1 ''c'') =
       Inl (PySyntaxError ''non-default argument follows default argument.'')"
proof -
  have line: "str_int 12 = ''12''"
    by code_simp
  have concrete:
    "build_attr_declaration ''evnt'' ''clicked'' None None 12 ''main.enaml'' =
       Inl (SyntaxError ''main.enaml'' 12 ''Expected keyword 'attr' or 'event', got 'evnt' instead.'')"
    "p_enaml_raw_python (\<lambda>block fn. Inl (fn, 14)) ''main.enaml'' 12 ''x = = 1'' =
       Inl (SyntaxError ''main.enaml'' 14 ''invalid syntax'')"
    "p_identifier ''idd'' ''clicked'' 12 =
       Inl (EnamlSyntaxError (CHR 0x27 # ''id' required. Got 'idd' instead. - lineno (12)''))"
    "targets_are_nodes (Tuple [Name ''a'' Load, Num ''1''] Load)"
    "\<not> spec_store_target (Tuple [Name ''a'' Load, Num ''1''] Load)"
    "set_store_ctxt (Tuple [Name ''a'' Load, Num ''1''] Load) =
       Inl (EnamlSyntaxError ''can't assign to literal'')"
    "p_argument3 (Num ''1'') (Num ''2'') = Inl (AssertionError ''Keyword arg must be a Name.'')"
    "p_varargslist_list3 (p_varargslist_list2 (p_fpdef1 ''b'') (Num ''1'')) (p_fpdef1 ''c'') =
       Inl (PySyntaxError ''non-default argument follows default argument.'')"
    by (simp_all add: line build_attr_declaration_def raise_syntax_error_def
        expected_keyword_msg_def p_enaml_raw_python_def p_identifier_def
        raise_enaml_syntax_error_def id_required_msg_def p_argument3_def
        p_varargslist_list3_def p_varargslist_list2_def p_fpdef1_def)
  show ?thesis
    using failure_values [where filename = "''main.enaml''" and lineno = 12 and kw = "''evnt''"
        and name = "''clicked''" and ty = None and dflt = None and lhs = "''idd''"
        and node = "Tuple [Name ''a'' Load, Num ''1''] Load" and arg = "Num ''1''"
        and v = "Num ''2''" and list_args = "[Name ''b'' Param]" and list_defaults = "[Num ''1'']"
        and fpdef = "Name ''c'' Param"]
    by (simp only: concrete simp_thms)
qed

subsection \<open>The misspelt slice field\<close>

text \<open>
  Claim C6 says that the two actions that write \<open>uppper\<close> for \<open>upper\<close> are those of
  \<open>a[x:y]\<close> and \<open>a[x:y:z]\<close>, and that every other form sets \<open>upper\<close>. The form \<open>a[x:y:z]\<close>
  is a counterexample: its action, \<open>p_subscript13\<close>, sets \<open>upper\<close> to \<open>y\<close> and has no
  \<open>uppper\<close>; and the form \<open>a[x:]\<close>, one of the others, has an \<open>uppper\<close> and no \<open>upper\<close>.
\<close>

theorem slice_upper_counterexample:
  "get_field ''upper''
     (subscript (test_COLON_test_COLON_test (Name ''x'' Load) (Name ''y'' Load) (Name ''z'' Load))) =
     Some (Some (Name ''y'' Load))
   \<and> get_field ''uppper''
       (subscript (test_COLON_test_COLON_test (Name ''x'' Load) (Name ''y'' Load) (Name ''z'' Load))) =
       None
   \<and> get_field ''uppper'' (subscript (test_COLON (Name ''x'' Load))) = Some None
   \<and> get_field ''upper'' (subscript (test_COLON (Name ''x'' Load))) = None"
  by (simp add: get_field_def p_subscript13_def p_subscript5_def)

text \<open>
  Claim C6, amended. Exactly two actions of \<open>subscript\<close> write the field \<open>uppper\<close>: those of
  the forms \<open>a[x:]\<close> (\<open>p_subscript5\<close>) and \<open>a[x:y]\<close> (\<open>p_subscript10\<close>). Their nodes have no
  \<open>upper\<close> field; the bound given (\<open>None\<close>, respectively \<open>y\<close>) is in \<open>uppper\<close>. Every other
  slice form, \<open>a[x:y:z]\<close> among them, sets \<open>upper\<close> to the bound written after the first
  colon, or to \<open>None\<close> when there is none.
\<close>

theorem slice_upper_fields:
  "((get_field ''uppper'' (subscript f) \<noteq> None) \<longleftrightarrow>
      ((\<exists>x. f = test_COLON x) \<or> (\<exists>x y. f = test_COLON_test x y)))
   \<and> get_field ''upper'' (subscript (test_COLON x)) = None
   \<and> get_field ''uppper'' (subscript (test_COLON x)) = Some None
   \<and> get_field ''upper'' (subscript (test_COLON_test x y)) = None
   \<and> get_field ''uppper'' (subscript (test_COLON_test x y)) = Some (Some y)
   \<and> (is_slice_form f \<and> (\<forall>x. f \<noteq> test_COLON x) \<and> (\<forall>x y. f \<noteq> test_COLON_test x y) \<longrightarrow>
        get_field ''upper'' (subscript f) = Some (spec_upper f))
   \<and> get_field ''upper'' (subscript (test_COLON_test_COLON_test x y z)) = Some (Some y)"
proof -
  note defs = get_field_def p_subscript1_def p_subcript2_def p_subscript3_def p_subscript4_def
    p_subscript5_def p_subscrip6_def p_subscript7_def p_subscript8_def p_subscript9_def
    p_subscript10_def p_subscript11_def p_subscript12_def p_subscript13_def p_subscript14_def
  have which: "(get_field ''uppper'' (subscript f) \<noteq> None) \<longleftrightarrow>
      ((\<exists>x. f = test_COLON x) \<or> (\<exists>x y. f = test_COLON_test x y))"
    by (cases f) (simp_all add: defs)
  have two: "get_field ''upper'' (subscript (test_COLON x)) = None"
    "get_field ''uppper'' (subscript (test_COLON x)) = Some None"
    "get_field ''upper'' (subscript (test_COLON_test x y)) = None"
    "get_field ''uppper'' (subscript (test_COLON_test x y)) = Some (Some y)"
    "get_field ''upper'' (subscript (test_COLON_test_COLON_test x y z)) = Some (Some y)"
    by (simp_all add: defs)
  have others: "is_slice_form f \<and> (\<forall>x. f \<noteq> test_COLON x) \<and> (\<forall>x y. f \<noteq> test_COLON_test x y) \<longrightarrow>
        get_field ''upper'' (subscript f) = Some (spec_upper f)"
    by (cases f) (simp_all add: defs)
  show ?thesis
    using which two others by simp
qed

theorem slice_upper_fields_witness:
  "is_slice_form (COLON_test_COLON_test (Name ''y'' Load) (Name ''z'' Load))
   \<and> get_field ''upper'' (subscript (COLON_test_COLON_test (Name ''y'' Load) (Name ''z'' Load))) =
       Some (Some (Name ''y'' Load))
   \<and> get_field ''uppper'' (subscript (test_COLON_test (Name ''x'' Load) (Name ''y'' Load))) =
       Some (Some (Name ''y'' Load))"
  using slice_upper_fields [of "COLON_test_COLON_test (Name ''y'' Load) (Name ''z'' Load)"
      "Name ''x'' Load" "Name ''y'' Load"]
  by simp

subsection \<open>Bitwise xor and bitwise and\<close>

text \<open>
  Claim C3 says that \<open>a ^ b\<close> and \<open>a & b\<close> parse to a binary operation of \<open>a\<close> and \<open>b\<close>.
  The code does not do that. The action of \<open>xor_expr_list : CIRCUMFLEX and_expr\<close> takes
  \<open>p[1]\<close>, the text of the operator token, for the operand, so the right operand of
  \<open>a ^ b\<close> is the string \<open>^\<close>; the action of \<open>and_expr_list : AMPER shift_expr\<close> reads
  \<open>p[3]\<close> of a production of two symbols, so \<open>a & b\<close> raises \<open>IndexError\<close>. The action
  of the same production one layer up, for \<open>a | b\<close>, reads \<open>p[2]\<close> and builds the binary
  operation of \<open>a\<close> and \<open>b\<close>, and the actions of the longer productions of the two layers,
  for a second operator in a row, read the operand from the right slot.
\<close>

theorem bitwise_reductions:
  "reduce_xor (Name ''a'' Load) (Name ''b'' Load) =
     Inr (PNode (BinOp (Name ''a'' Load) BitXor (TokenText ''^'')))
   \<and> reduce_xor (Name ''a'' Load) (Name ''b'' Load) \<noteq>
       Inr (PNode (BinOp (Name ''a'' Load) BitXor (Name ''b'' Load)))
   \<and> reduce_and (Name ''a'' Load) (Name ''b'' Load) = Inl IndexError
   \<and> reduce_or (Name ''a'' Load) (Name ''b'' Load) =
       Inr (PNode (BinOp (Name ''a'' Load) BitOr (Name ''b'' Load)))
   \<and> p_xor_expr_list2 [PNone, PPairs pairs, PTok ''^'', PNode c] =
       Inr (PPairs (pairs @ [(BitXor, c)]))
   \<and> p_and_expr_list2 [PNone, PPairs pairs, PTok ''&'', PNode c] =
       Inr (PPairs (pairs @ [(BitAnd, c)]))"
  by (simp add: reduce_xor_def reduce_and_def reduce_or_def p_xor_expr_list1_def p_xor_expr2_def
      p_and_expr_list1_def p_xor_expr_list2_def p_and_expr_list2_def p_expr_list1_def
      p_expr2_def p_get_def)

end
